theory Spec2Isabelle
  imports Complex_Main
begin

section \<open>JavaScript numbers and array helpers\<close>

text \<open>
  The analysed code computes on JavaScript numbers: IEEE 754 binary64 values with
  rounding to nearest, ties to even.  A \<open>jsnum\<close> is a finite number, an infinity or NaN;
  the two zeros are identified.  \<open>round64\<close> rounds a real to the nearest double and
  overflows to an infinity; the arithmetic of TrajectoryAnalyzer, of calculateCorrelation
  and of the change percentage of calculateTrendDirection is modelled with it, operation
  by operation.  A number the source writes as a decimal literal \<open>d\<close> is the double
  \<open>dbl d\<close>.  Array lengths are far below \<open>2 ^ 53\<close> and are doubles as they are.

  calculateStats, calculateTrendSummary, identifyCommonIssues and the segment entries of
  analyzeNetworkImpact are modelled on the reals, with an explicit result for a division
  by zero (\<open>js_div\<close>); the statements proved about them select, count or compare and do
  not depend on rounding.
\<close>

datatype jsnum = Num real | PosInf | NegInf | NaN

text \<open>\<open>pow2 k\<close> is \<open>2\<close> to the power \<open>k\<close>; the binade of \<open>x\<close> is the \<open>e\<close> with
  \<open>2 ^ e \<le> |x| < 2 ^ (e + 1)\<close>; a double of that binade is a multiple of
  \<open>2 ^ (e - 52)\<close>, and of \<open>2 ^ (- 1074)\<close> in the subnormal range.\<close>

definition pow2 :: "int \<Rightarrow> real" where
  "pow2 k = (if 0 \<le> k then 2 ^ nat k else 1 / 2 ^ nat (- k))"

definition binade :: "real \<Rightarrow> int" where
  "binade x = \<lfloor>log 2 \<bar>x\<bar>\<rfloor>"

definition qexp :: "real \<Rightarrow> int" where
  "qexp x = max (binade x - 52) (- 1074)"

definition round_half_even :: "real \<Rightarrow> int" where
  "round_half_even y =
     (let f = \<lfloor>y\<rfloor>; d = y - of_int f
      in if d < 1 / 2 then f else if 1 / 2 < d then f + 1
         else if even f then f else f + 1)"

definition round64 :: "real \<Rightarrow> jsnum" where
  "round64 x =
     (if x = 0 then Num 0
      else
        let r = of_int (round_half_even (x / pow2 (qexp x))) * pow2 (qexp x)
        in if pow2 1024 \<le> \<bar>r\<bar> then (if 0 < x then PosInf else NegInf) else Num r)"

text \<open>The double a decimal literal denotes (the literals of the source are finite).\<close>

definition dbl :: "real \<Rightarrow> real" where
  "dbl d = (case round64 d of Num r \<Rightarrow> r | _ \<Rightarrow> 0)"

text \<open>Negation, \<open>+\<close>, \<open>-\<close>, \<open>*\<close>, \<open>/\<close> and \<open>Math.sqrt\<close> on JavaScript numbers.\<close>

definition fneg :: "jsnum \<Rightarrow> jsnum" where
  "fneg v = (case v of Num r \<Rightarrow> Num (- r) | PosInf \<Rightarrow> NegInf | NegInf \<Rightarrow> PosInf
             | NaN \<Rightarrow> NaN)"

definition fadd :: "jsnum \<Rightarrow> jsnum \<Rightarrow> jsnum" where
  "fadd v w =
     (case v of
        Num a \<Rightarrow> (case w of Num b \<Rightarrow> round64 (a + b) | PosInf \<Rightarrow> PosInf
                   | NegInf \<Rightarrow> NegInf | NaN \<Rightarrow> NaN)
      | PosInf \<Rightarrow> (case w of Num b \<Rightarrow> PosInf | PosInf \<Rightarrow> PosInf | NegInf \<Rightarrow> NaN
                    | NaN \<Rightarrow> NaN)
      | NegInf \<Rightarrow> (case w of Num b \<Rightarrow> NegInf | PosInf \<Rightarrow> NaN | NegInf \<Rightarrow> NegInf
                    | NaN \<Rightarrow> NaN)
      | NaN \<Rightarrow> NaN)"

definition fsub :: "jsnum \<Rightarrow> jsnum \<Rightarrow> jsnum" where
  "fsub v w = fadd v (fneg w)"

definition fmul :: "jsnum \<Rightarrow> jsnum \<Rightarrow> jsnum" where
  "fmul v w =
     (case v of
        Num a \<Rightarrow>
          (case w of
             Num b \<Rightarrow> round64 (a * b)
           | PosInf \<Rightarrow> (if a = 0 then NaN else if 0 < a then PosInf else NegInf)
           | NegInf \<Rightarrow> (if a = 0 then NaN else if 0 < a then NegInf else PosInf)
           | NaN \<Rightarrow> NaN)
      | PosInf \<Rightarrow>
          (case w of
             Num b \<Rightarrow> (if b = 0 then NaN else if 0 < b then PosInf else NegInf)
           | PosInf \<Rightarrow> PosInf | NegInf \<Rightarrow> NegInf | NaN \<Rightarrow> NaN)
      | NegInf \<Rightarrow>
          (case w of
             Num b \<Rightarrow> (if b = 0 then NaN else if 0 < b then NegInf else PosInf)
           | PosInf \<Rightarrow> NegInf | NegInf \<Rightarrow> PosInf | NaN \<Rightarrow> NaN)
      | NaN \<Rightarrow> NaN)"

definition fdiv :: "jsnum \<Rightarrow> jsnum \<Rightarrow> jsnum" where
  "fdiv v w =
     (case v of
        Num a \<Rightarrow>
          (case w of
             Num b \<Rightarrow>
               (if b = 0 then (if 0 < a then PosInf else if a < 0 then NegInf else NaN)
                else round64 (a / b))
           | PosInf \<Rightarrow> Num 0 | NegInf \<Rightarrow> Num 0 | NaN \<Rightarrow> NaN)
      | PosInf \<Rightarrow>
          (case w of Num b \<Rightarrow> (if b < 0 then NegInf else PosInf) | _ \<Rightarrow> NaN)
      | NegInf \<Rightarrow>
          (case w of Num b \<Rightarrow> (if b < 0 then PosInf else NegInf) | _ \<Rightarrow> NaN)
      | NaN \<Rightarrow> NaN)"

definition fsqrt :: "jsnum \<Rightarrow> jsnum" where
  "fsqrt v = (case v of Num a \<Rightarrow> (if a < 0 then NaN else round64 (sqrt a))
              | PosInf \<Rightarrow> PosInf | NegInf \<Rightarrow> NaN | NaN \<Rightarrow> NaN)"

text \<open>\<open>Math.pow(v, 2)\<close>, taken as the rounded product \<open>v * v\<close>.\<close>

definition js_square :: "jsnum \<Rightarrow> jsnum" where
  "js_square v = fmul v v"

text \<open>\<open>a / b\<close> on reals, for the functions modelled without rounding: \<open>x / 0\<close> is an
  infinity of the sign of \<open>x\<close>, \<open>0 / 0\<close> is NaN.\<close>

definition js_div :: "real \<Rightarrow> real \<Rightarrow> jsnum" where
  "js_div a b =
     (if b = 0 then (if 0 < a then PosInf else if a < 0 then NegInf else NaN)
      else Num (a / b))"

text \<open>\<open>v * k\<close> for a finite positive constant \<open>k\<close> (the source multiplies by 100).\<close>

definition js_scale :: "jsnum \<Rightarrow> real \<Rightarrow> jsnum" where
  "js_scale v k = (case v of Num r \<Rightarrow> Num (r * k) | PosInf \<Rightarrow> PosInf
                   | NegInf \<Rightarrow> NegInf | NaN \<Rightarrow> NaN)"

text \<open>\<open>v > c\<close> and \<open>v < c\<close> against a finite constant; every comparison with NaN is false.\<close>

definition js_gt :: "jsnum \<Rightarrow> real \<Rightarrow> bool" where
  "js_gt v c = (case v of Num r \<Rightarrow> c < r | PosInf \<Rightarrow> True | NegInf \<Rightarrow> False | NaN \<Rightarrow> False)"

definition js_lt :: "jsnum \<Rightarrow> real \<Rightarrow> bool" where
  "js_lt v c = (case v of Num r \<Rightarrow> r < c | PosInf \<Rightarrow> False | NegInf \<Rightarrow> True | NaN \<Rightarrow> False)"

text \<open>\<open>Math.min(c, v)\<close> and \<open>Math.max(c, v)\<close> for a finite \<open>c\<close>: NaN if \<open>v\<close> is NaN.\<close>

definition js_min :: "real \<Rightarrow> jsnum \<Rightarrow> jsnum" where
  "js_min c v = (case v of Num r \<Rightarrow> Num (min c r) | PosInf \<Rightarrow> Num c
                 | NegInf \<Rightarrow> NegInf | NaN \<Rightarrow> NaN)"

definition js_max :: "real \<Rightarrow> jsnum \<Rightarrow> jsnum" where
  "js_max c v = (case v of Num r \<Rightarrow> Num (max c r) | PosInf \<Rightarrow> PosInf
                 | NegInf \<Rightarrow> Num c | NaN \<Rightarrow> NaN)"

definition js_finite :: "jsnum \<Rightarrow> bool" where
  "js_finite v = (case v of Num r \<Rightarrow> True | _ \<Rightarrow> False)"

text \<open>\<open>v || d\<close> on an optional number: \<open>undefined\<close> and \<open>0\<close> are both falsy, so both
  give \<open>d\<close>.\<close>

definition js_or :: "real option \<Rightarrow> real \<Rightarrow> real" where
  "js_or v d = (case v of None \<Rightarrow> d | Some a \<Rightarrow> if a = 0 then d else a)"

text \<open>\<open>xs.reduce((sum, v) => sum + f(v), 0)\<close>, on reals and with rounded additions.  A
  loop that adds to a total starting at 0 accumulates in the same way.\<close>

definition reduce_sum :: "('a \<Rightarrow> real) \<Rightarrow> 'a list \<Rightarrow> real" where
  "reduce_sum f xs = foldl (\<lambda>sum v. sum + f v) 0 xs"

definition reduce_fsum :: "('a \<Rightarrow> jsnum) \<Rightarrow> 'a list \<Rightarrow> jsnum" where
  "reduce_fsum f xs = foldl (\<lambda>sum v. fadd sum (f v)) (Num 0) xs"

section \<open>UAVDataProcessor.calculateStats\<close>

record stats =
  average :: real
  median :: real
  min_value :: real
  max_value :: real

text \<open>\<open>values\<close> is \<open>None\<close> for a null or undefined argument (\<open>!values\<close>).  The sorted
  copy \<open>values.slice().sort((a, b) => a - b)\<close> is the ascending sort.\<close>

definition calculateStats :: "real list option \<Rightarrow> stats" where
  "calculateStats values =
     (case values of
        None \<Rightarrow> \<lparr>average = 0, median = 0, min_value = 0, max_value = 0\<rparr>
      | Some vs \<Rightarrow>
          if length vs = 0 then \<lparr>average = 0, median = 0, min_value = 0, max_value = 0\<rparr>
          else
            let sorted_vs = sort vs;
                sum = reduce_sum (\<lambda>b. b) vs
            in \<lparr>average = sum / real (length vs),
                median = sorted_vs ! (length sorted_vs div 2),
                min_value = sorted_vs ! 0,
                max_value = sorted_vs ! (length sorted_vs - 1)\<rparr>)"

section \<open>TrajectoryAnalyzer\<close>

text \<open>
  One element of \<open>position_data\<close>.  A field the source tests against \<open>undefined\<close> or
  defaults with \<open>||\<close> is optional; \<open>stabilized\<close> is only used for its truthiness.  The
  coordinates are the fields \<open>x\<close>, \<open>y\<close>, \<open>z\<close> of the source.
\<close>

record sample =
  pos_x :: real
  pos_y :: real
  pos_z :: real
  time :: real
  error :: "real option"
  error_xy :: "real option"
  error_z :: "real option"
  phase :: "string option"
  stabilized :: bool
  networkQuality :: "real option"

type_synonym waypoint = "real \<times> real \<times> real"

record flight_data =
  position_data :: "sample list"
  sequence :: "waypoint list option"

text \<open>\<open>Math.min(...vs)\<close> and \<open>Math.max(...vs)\<close>; on no arguments they are the infinities.\<close>

fun math_min :: "real list \<Rightarrow> jsnum" where
  "math_min [] = PosInf"
| "math_min (v # vs) = Num (fold min vs v)"

fun math_max :: "real list \<Rightarrow> jsnum" where
  "math_max [] = NegInf"
| "math_max (v # vs) = Num (fold max vs v)"

definition calculateMean :: "jsnum list \<Rightarrow> jsnum" where
  "calculateMean values =
     (if length values = 0 then Num 0
      else fdiv (reduce_fsum (\<lambda>val. val) values) (Num (real (length values))))"

definition calculateStandardDeviation :: "jsnum list \<Rightarrow> jsnum" where
  "calculateStandardDeviation values =
     (if length values = 0 then Num 0
      else
        let mean = calculateMean values;
            squaredDiffs = map (\<lambda>val. js_square (fsub val mean)) values
        in fsqrt (calculateMean squaredDiffs))"

record axis_accuracy =
  axis_average :: jsnum
  axis_max :: jsnum
  axis_min :: jsnum

record path_accuracy =
  averageError :: jsnum
  maxError :: real
  minError :: jsnum
  totalPoints :: nat
  xyPlaneAccuracy :: axis_accuracy
  altitudeAccuracy :: axis_accuracy

text \<open>The \<open>forEach\<close> of calculatePathAccuracy collects the defined errors in order, adds
  them up and keeps the running maximum, which starts at 0.\<close>

definition calculatePathAccuracy :: "sample list \<Rightarrow> path_accuracy" where
  "calculatePathAccuracy positions =
     (let errors = List.map_filter error positions;
          xyErrors = List.map_filter error_xy positions;
          zErrors = List.map_filter error_z positions;
          totalDeviation = reduce_fsum Num errors;
          maxDeviation = foldl (\<lambda>m e. if e > m then e else m) 0 errors
      in \<lparr>averageError =
            (if length errors > 0 then fdiv totalDeviation (Num (real (length errors)))
             else Num 0),
          maxError = maxDeviation,
          minError = (if length errors > 0 then math_min errors else Num 0),
          totalPoints = length errors,
          xyPlaneAccuracy =
            \<lparr>axis_average =
               (if length xyErrors > 0 then calculateMean (map Num xyErrors) else Num 0),
             axis_max = (if length xyErrors > 0 then math_max xyErrors else Num 0),
             axis_min = (if length xyErrors > 0 then math_min xyErrors else Num 0)\<rparr>,
          altitudeAccuracy =
            \<lparr>axis_average =
               (if length zErrors > 0 then calculateMean (map Num zErrors) else Num 0),
             axis_max = (if length zErrors > 0 then math_max zErrors else Num 0),
             axis_min = (if length zErrors > 0 then math_min zErrors else Num 0)\<rparr>\<rparr>)"

text \<open>calculateBasicStats; its fourth field \<open>sequenceIndices\<close> (the distinct
  \<open>sequence_index\<close> tags of the samples) carries no metric and is left out.\<close>

record basic_stats =
  basic_totalPoints :: nat
  waypointPoints :: nat
  transitPoints :: nat

definition calculateBasicStats :: "sample list \<Rightarrow> basic_stats" where
  "calculateBasicStats positions =
     (let waypointPositions = filter (\<lambda>p. phase p = Some ''waypoint'') positions;
          transitPositions = filter (\<lambda>p. phase p = Some ''transit'') positions
      in \<lparr>basic_totalPoints = length positions,
          waypointPoints = length waypointPositions,
          transitPoints = length transitPositions\<rparr>)"

record phase_stats =
  phase_count :: nat
  phase_averageError :: jsnum
  stabilizedCount :: nat
  stabilizationRate :: jsnum

record phase_analysis =
  waypoint_phase :: phase_stats
  transit_phase :: phase_stats

definition phase_summary :: "sample list \<Rightarrow> phase_stats" where
  "phase_summary ps =
     \<lparr>phase_count = length ps,
      phase_averageError =
        (if length ps > 0 then calculateMean (map (\<lambda>p. Num (js_or (error p) 0)) ps)
         else Num 0),
      stabilizedCount = length (filter stabilized ps),
      stabilizationRate =
        (if length ps > 0
         then fdiv (Num (real (length (filter stabilized ps)))) (Num (real (length ps)))
         else Num 0)\<rparr>"

definition analyzePhases :: "sample list \<Rightarrow> phase_analysis" where
  "analyzePhases positions =
     (let waypointPositions = filter (\<lambda>p. phase p = Some ''waypoint'') positions;
          transitPositions = filter (\<lambda>p. phase p = Some ''transit'') positions
      in \<lparr>waypoint_phase = phase_summary waypointPositions,
          transit_phase = phase_summary transitPositions\<rparr>)"

record stability_metrics =
  stabilizationRatio :: jsnum
  stabilizedPoints :: nat
  unstabilizedPoints :: nat
  errorVariance :: jsnum
  overallStabilityScore :: jsnum

text \<open>\<open>Math.max(0, 100 - (errorVariance * 1000))\<close>.\<close>

definition stability_score :: "jsnum \<Rightarrow> jsnum" where
  "stability_score variance = js_max 0 (fsub (Num 100) (fmul variance (Num 1000)))"

definition calculateStabilityMetrics :: "sample list \<Rightarrow> stability_metrics" where
  "calculateStabilityMetrics positions =
     (let stabilizedCount = length (filter stabilized positions);
          stabilizationRatio =
            (if length positions > 0
             then fdiv (Num (real stabilizedCount)) (Num (real (length positions)))
             else Num 0);
          errors = map (\<lambda>p. Num (js_or (error p) 0)) positions;
          errorVariance = calculateStandardDeviation errors
      in \<lparr>stabilizationRatio = stabilizationRatio,
          stabilizedPoints = stabilizedCount,
          unstabilizedPoints = length positions - stabilizedCount,
          errorVariance = errorVariance,
          overallStabilityScore = stability_score errorVariance\<rparr>)"

text \<open>\<open>Math.sqrt(Math.pow(dx, 2) + Math.pow(dy, 2) + Math.pow(dz, 2))\<close> for the three
  coordinate differences.\<close>

definition distance3 :: "jsnum \<Rightarrow> jsnum \<Rightarrow> jsnum \<Rightarrow> jsnum" where
  "distance3 dx dy dz = fsqrt (fadd (fadd (js_square dx) (js_square dy)) (js_square dz))"

text \<open>The two distance loops run \<open>i\<close> from 1 to the last index and add the distance
  between element \<open>i\<close> and element \<open>i - 1\<close> to a total that starts at 0.\<close>

definition calculateActualDistance :: "sample list \<Rightarrow> jsnum" where
  "calculateActualDistance positions =
     reduce_fsum
       (\<lambda>i. let curr = positions ! i; prev = positions ! (i - 1)
            in distance3 (fsub (Num (pos_x curr)) (Num (pos_x prev)))
                 (fsub (Num (pos_y curr)) (Num (pos_y prev)))
                 (fsub (Num (pos_z curr)) (Num (pos_z prev))))
       [1 ..< length positions]"

definition idealDistanceOf :: "waypoint list \<Rightarrow> jsnum" where
  "idealDistanceOf sq =
     reduce_fsum
       (\<lambda>i. case (sq ! i, sq ! (i - 1)) of
              ((c0, c1, c2), (p0, p1, p2)) \<Rightarrow>
                distance3 (fsub (Num c0) (Num p0)) (fsub (Num c1) (Num p1))
                  (fsub (Num c2) (Num p2)))
       [1 ..< length sq]"

text \<open>The fallback branch returns an object without \<open>excessDistance\<close>.\<close>

record efficiency =
  efficiencyRatio :: jsnum
  actualDistance :: jsnum
  idealDistance :: jsnum
  excessDistance :: "jsnum option"

definition efficiency_fallback :: "sample list \<Rightarrow> efficiency" where
  "efficiency_fallback positions =
     \<lparr>efficiencyRatio = Num (dbl 0.85),
      actualDistance = calculateActualDistance positions,
      idealDistance = Num 0,
      excessDistance = None\<rparr>"

definition calculateEfficiency :: "sample list \<Rightarrow> waypoint list option \<Rightarrow> efficiency" where
  "calculateEfficiency positions sequence_opt =
     (case sequence_opt of
        None \<Rightarrow> efficiency_fallback positions
      | Some sq \<Rightarrow>
          if length sq < 2 then efficiency_fallback positions
          else
            let actual = calculateActualDistance positions;
                ideal = idealDistanceOf sq;
                ratio = (if js_gt ideal 0 then fdiv ideal actual else Num (dbl 0.85))
            in \<lparr>efficiencyRatio = js_min 1.0 ratio,
                actualDistance = actual,
                idealDistance = ideal,
                excessDistance = Some (fsub actual ideal)\<rparr>)"

record trajectory_analysis =
  pathAccuracy :: path_accuracy
  basicStats :: basic_stats
  phaseAnalysis :: phase_analysis
  stabilityMetrics :: stability_metrics
  trajectoryEfficiency :: efficiency

definition analyzeTrajectory :: "flight_data \<Rightarrow> trajectory_analysis" where
  "analyzeTrajectory flightData =
     (let positions = position_data flightData
      in \<lparr>pathAccuracy = calculatePathAccuracy positions,
          basicStats = calculateBasicStats positions,
          phaseAnalysis = analyzePhases positions,
          stabilityMetrics = calculateStabilityMetrics positions,
          trajectoryEfficiency = calculateEfficiency positions (sequence flightData)\<rparr>)"

section \<open>The comparison route reads the analysis object\<close>

text \<open>
  The route handler reads properties of the object analyzeTrajectory returns.  A
  JavaScript object is a list of keys with their values; reading a key an object does
  not have gives \<open>undefined\<close>, and reading any property of \<open>undefined\<close> throws a
  TypeError.
\<close>

datatype jsval = JUndefined | JNumber jsnum | JObject "(string \<times> jsval) list"

datatype js_error = TypeError

fun js_get :: "jsval \<Rightarrow> string \<Rightarrow> js_error + jsval" where
  "js_get JUndefined k = Inl TypeError"
| "js_get (JNumber n) k = Inr JUndefined"
| "js_get (JObject kvs) k = Inr (case map_of kvs k of None \<Rightarrow> JUndefined | Some v \<Rightarrow> v)"

text \<open>\<open>a.k1.k2\<close>: the first failing read ends the evaluation.\<close>

definition js_get2 :: "jsval \<Rightarrow> string \<Rightarrow> string \<Rightarrow> js_error + jsval" where
  "js_get2 a k1 k2 = (case js_get a k1 of Inl e \<Rightarrow> Inl e | Inr v \<Rightarrow> js_get v k2)"

definition js_then :: "js_error + 'a \<Rightarrow> ('a \<Rightarrow> js_error + 'b) \<Rightarrow> js_error + 'b" where
  "js_then r f = (case r of Inl e \<Rightarrow> Inl e | Inr v \<Rightarrow> f v)"

definition js_real :: "real \<Rightarrow> jsval" where
  "js_real r = JNumber (Num r)"

definition js_nat :: "nat \<Rightarrow> jsval" where
  "js_nat n = JNumber (Num (real n))"

definition axis_object :: "axis_accuracy \<Rightarrow> jsval" where
  "axis_object a =
     JObject [(''average'', JNumber (axis_average a)), (''max'', JNumber (axis_max a)),
              (''min'', JNumber (axis_min a))]"

definition phase_object :: "phase_stats \<Rightarrow> jsval" where
  "phase_object s =
     JObject [(''count'', js_nat (phase_count s)),
              (''averageError'', JNumber (phase_averageError s)),
              (''stabilizedCount'', js_nat (stabilizedCount s)),
              (''stabilizationRate'', JNumber (stabilizationRate s))]"

definition efficiency_object :: "efficiency \<Rightarrow> jsval" where
  "efficiency_object e =
     (case excessDistance e of
        None \<Rightarrow>
          JObject [(''efficiencyRatio'', JNumber (efficiencyRatio e)),
                   (''actualDistance'', JNumber (actualDistance e)),
                   (''idealDistance'', JNumber (idealDistance e))]
      | Some d \<Rightarrow>
          JObject [(''actualDistance'', JNumber (actualDistance e)),
                   (''idealDistance'', JNumber (idealDistance e)),
                   (''efficiencyRatio'', JNumber (efficiencyRatio e)),
                   (''excessDistance'', JNumber d)])"

text \<open>The object literal of analyzeTrajectory, with the five keys it has.\<close>

definition analysis_object :: "trajectory_analysis \<Rightarrow> jsval" where
  "analysis_object a =
     JObject
       [(''pathAccuracy'',
           JObject [(''averageError'', JNumber (averageError (pathAccuracy a))),
                    (''maxError'', js_real (maxError (pathAccuracy a))),
                    (''minError'', JNumber (minError (pathAccuracy a))),
                    (''totalPoints'', js_nat (totalPoints (pathAccuracy a))),
                    (''xyPlaneAccuracy'', axis_object (xyPlaneAccuracy (pathAccuracy a))),
                    (''altitudeAccuracy'', axis_object (altitudeAccuracy (pathAccuracy a)))]),
        (''basicStats'',
           JObject [(''totalPoints'', js_nat (basic_totalPoints (basicStats a))),
                    (''waypointPoints'', js_nat (waypointPoints (basicStats a))),
                    (''transitPoints'', js_nat (transitPoints (basicStats a)))]),
        (''phaseAnalysis'',
           JObject [(''waypoint'', phase_object (waypoint_phase (phaseAnalysis a))),
                    (''transit'', phase_object (transit_phase (phaseAnalysis a)))]),
        (''stabilityMetrics'',
           JObject [(''stabilizationRatio'', JNumber (stabilizationRatio (stabilityMetrics a))),
                    (''stabilizedPoints'', js_nat (stabilizedPoints (stabilityMetrics a))),
                    (''unstabilizedPoints'', js_nat (unstabilizedPoints (stabilityMetrics a))),
                    (''errorVariance'', JNumber (errorVariance (stabilityMetrics a))),
                    (''overallStabilityScore'',
                       JNumber (overallStabilityScore (stabilityMetrics a)))]),
        (''trajectoryEfficiency'', efficiency_object (trajectoryEfficiency a))]"

text \<open>
  The \<open>metrics\<close> object literal of the \<open>/compare\<close> handler.  Its property values are
  evaluated in the order they are written; \<open>stored_average\<close> is
  \<open>flight.analysis.positionAccuracy.overall.average\<close> of the stored flight.
\<close>

definition compare_metrics :: "flight_data \<Rightarrow> real \<Rightarrow> js_error + (string \<times> jsval) list" where
  "compare_metrics flightDataForAnalysis stored_average =
     (let analysis = analysis_object (analyzeTrajectory flightDataForAnalysis) in
      js_then (js_get2 analysis ''stabilityMetrics'' ''overallStabilityScore'') (\<lambda>v1.
      js_then (js_get2 analysis ''trajectoryEfficiency'' ''efficiencyRatio'') (\<lambda>v2.
      js_then (js_get2 analysis ''turnAnalysis'' ''pathSmoothness'') (\<lambda>v3.
      js_then (js_get2 analysis ''networkCorrelation'' ''networkErrorCorrelation'') (\<lambda>v4.
      js_then (js_get2 analysis ''turnAnalysis'' ''totalTurns'') (\<lambda>v6.
      js_then (js_get2 analysis ''stabilityMetrics'' ''stabilizationRatio'') (\<lambda>v7.
        Inr [(''overallStabilityScore'', v1), (''efficiencyRatio'', v2),
             (''pathSmoothness'', v3), (''networkCorrelation'', v4),
             (''averageError'', js_real stored_average), (''totalTurns'', v6),
             (''stabilizationRatio'', v7)])))))))"

section \<open>Cross-flight analytics\<close>

text \<open>A point of a trend series: \<open>{date, value}\<close>; the date is a number of milliseconds.\<close>

record data_point =
  point_date :: int
  point_value :: real

text \<open>The average of the values of a half: the \<open>reduce\<close> sum divided by the length.\<close>

definition half_average :: "data_point list \<Rightarrow> jsnum" where
  "half_average half =
     fdiv (reduce_fsum (\<lambda>point. Num (point_value point)) half) (Num (real (length half)))"

text \<open>The local \<open>changePercent\<close> of calculateTrendDirection, for a series of at least
  two points (both halves are then non-empty).\<close>

definition changePercent :: "data_point list \<Rightarrow> jsnum" where
  "changePercent dataPoints =
     (let firstHalf = take (length dataPoints div 2) dataPoints;
          secondHalf = drop (length dataPoints div 2) dataPoints;
          firstAvg = half_average firstHalf;
          secondAvg = half_average secondHalf
      in fmul (fdiv (fsub secondAvg firstAvg) firstAvg) (Num 100))"


text \<open>An element of the series generatePerformanceTrends returns.\<close>

record trend_point =
  period :: string
  trend_value :: real
  flightCount :: nat
  trend_date :: int

text \<open>The result of calculateTrendSummary.  \<open>overallChange\<close> and \<open>averageValue\<close> are
  the numbers the source then formats with \<open>toFixed\<close>.\<close>

record trend_summary =
  totalDataPoints :: nat
  overallChange :: jsnum
  trend :: string
  averageValue :: real

datatype summary_result = Message string | Summary trend_summary

definition calculateTrendSummary :: "trend_point list \<Rightarrow> summary_result" where
  "calculateTrendSummary trends =
     (if length trends < 2 then Message ''Insufficient data for trend analysis''
      else
        let firstValue = trend_value (trends ! 0);
            lastValue = trend_value (trends ! (length trends - 1));
            change = js_scale (js_div (lastValue - firstValue) firstValue) 100
        in Summary
             \<lparr>totalDataPoints = length trends,
              overallChange = change,
              trend = (if js_gt change 5 then ''improving''
                       else if js_lt change (- 5) then ''declining'' else ''stable''),
              averageValue = reduce_sum trend_value trends / real (length trends)\<rparr>)"

text \<open>A stored flight as identifyCommonIssues reads it:
  \<open>analysis.positionAccuracy.overall.average\<close> and \<open>analysis.battery.startVoltage\<close>.  A
  voltage that was never stored is \<open>undefined\<close>, and \<open>undefined < 3.9\<close> is false.\<close>

record flight =
  overall_average :: real
  startVoltage :: "real option"





section \<open>Network impact\<close>

text \<open>
  calculateCorrelation on two arrays of finite numbers; the guard
  \<open>n !== y.length || n === 0\<close> is written as two tests in its order of evaluation.
  \<open>Math.sqrt\<close> of a negative number is NaN; NaN is not \<open>=== 0\<close>, and dividing by it
  gives NaN.
\<close>

definition calculateCorrelation :: "real list \<Rightarrow> real list \<Rightarrow> jsnum" where
  "calculateCorrelation xs ys =
     (if length xs \<noteq> length ys then Num 0
      else if length xs = 0 then Num 0
      else
        let n = Num (real (length xs));
            sumX = reduce_fsum Num xs;
            sumY = reduce_fsum Num ys;
            sumXY = reduce_fsum (\<lambda>i. fmul (Num (xs ! i)) (Num (ys ! i))) [0 ..< length xs];
            sumXX = reduce_fsum (\<lambda>val. fmul (Num val) (Num val)) xs;
            sumYY = reduce_fsum (\<lambda>val. fmul (Num val) (Num val)) ys;
            numerator = fsub (fmul n sumXY) (fmul sumX sumY);
            denominator =
              fsqrt (fmul (fsub (fmul n sumXX) (fmul sumX sumX))
                          (fsub (fmul n sumYY) (fmul sumY sumY)))
        in if denominator = Num 0 then Num 0 else fdiv numerator denominator)"

text \<open>\<open>p.networkQuality || 100\<close>.\<close>

definition quality :: "sample \<Rightarrow> real" where
  "quality p = js_or (networkQuality p) 100"

text \<open>The object \<open>segments\<close>, with its keys in the order they are written.\<close>

definition segments :: "sample list \<Rightarrow> (string \<times> sample list) list" where
  "segments positionData =
     [(''excellent'', filter (\<lambda>p. quality p \<ge> 90) positionData),
      (''good'', filter (\<lambda>p. quality p \<ge> 70 \<and> quality p < 90) positionData),
      (''fair'', filter (\<lambda>p. quality p \<ge> 50 \<and> quality p < 70) positionData),
      (''poor'', filter (\<lambda>p. quality p < 50) positionData)]"

text \<open>The entry of a non-empty segment; the numbers are those the source then formats
  with \<open>toFixed\<close>.  Adding an \<open>undefined\<close> error makes the sum NaN.\<close>

record segment_summary =
  seg_count :: nat
  seg_percentage :: real
  seg_averageError :: jsnum
  seg_stabilizationRate :: real

definition segment_entry :: "sample list \<Rightarrow> nat \<Rightarrow> segment_summary" where
  "segment_entry data total_count =
     \<lparr>seg_count = length data,
      seg_percentage = real (length data) / real total_count * 100,
      seg_averageError =
        (case those (map error data) of
           None \<Rightarrow> NaN
         | Some es \<Rightarrow> Num (reduce_sum (\<lambda>e. e) es / real (length data))),
      seg_stabilizationRate =
        real (length (filter stabilized data)) / real (length data) * 100\<rparr>"

definition segmentAnalysis :: "sample list \<Rightarrow> (string \<times> segment_summary) list" where
  "segmentAnalysis positionData =
     List.map_filter
       (\<lambda>(segment, data).
          if length data > 0 then Some (segment, segment_entry data (length positionData))
          else None)
       (segments positionData)"

definition js_abs_gt :: "jsnum \<Rightarrow> real \<Rightarrow> bool" where
  "js_abs_gt v c = (case v of Num r \<Rightarrow> c < \<bar>r\<bar> | PosInf \<Rightarrow> True | NegInf \<Rightarrow> True
                    | NaN \<Rightarrow> False)"

text \<open>The result of analyzeNetworkImpact without its \<open>recommendations\<close>, which are
  derived from the formatted percentage strings.  If some error is \<open>undefined\<close> the
  sums over the errors, and with them the coefficient, are NaN.\<close>

record network_impact =
  segment_analysis :: "(string \<times> segment_summary) list"
  coefficient :: jsnum
  strength :: string
  impact_interpretation :: string

definition analyzeNetworkImpact :: "sample list \<Rightarrow> network_impact" where
  "analyzeNetworkImpact positionData =
     (let networkQualities = map quality positionData;
          correlation =
            (case those (map error positionData) of
               None \<Rightarrow> NaN
             | Some errors \<Rightarrow> calculateCorrelation networkQualities errors)
      in \<lparr>segment_analysis = segmentAnalysis positionData,
          coefficient = correlation,
          strength = (if js_abs_gt correlation 0.7 then ''strong''
                      else if js_abs_gt correlation 0.3 then ''moderate'' else ''weak''),
          impact_interpretation =
            (if js_lt correlation (- 0.3)
             then ''Network degradation significantly impacts flight performance''
             else if js_gt correlation 0.3
             then ''Unexpected positive correlation - investigate data quality''
             else ''Network quality has minimal direct impact on flight errors'')\<rparr>)"

section \<open>Reference notions of the specification\<close>

text \<open>The population standard deviation as the specification words it, on the reals:
  the mean of the squared deviations from the mean, then the square root; 0 for an empty
  sequence.\<close>

definition population_stddev :: "real list \<Rightarrow> real" where
  "population_stddev vs =
     (if vs = [] then 0
      else sqrt ((\<Sum>v\<leftarrow>vs. (v - sum_list vs / real (length vs)) ^ 2) / real (length vs)))"

text \<open>The error of a sample, an absent error counting as 0.\<close>

definition error_value :: "sample \<Rightarrow> real" where
  "error_value p = (case error p of None \<Rightarrow> 0 | Some e \<Rightarrow> e)"

text \<open>The network quality of a sample with an absent value defaulted to 100, and the
  bucket of a quality by the thresholds \<open>poor < 50 \<le> fair < 70 \<le> good < 90 \<le> excellent\<close>.\<close>

definition defaulted_quality :: "sample \<Rightarrow> real" where
  "defaulted_quality p = (case networkQuality p of None \<Rightarrow> 100 | Some q \<Rightarrow> q)"

definition quality_bucket :: "real \<Rightarrow> string" where
  "quality_bucket q =
     (if q < 50 then ''poor'' else if q < 70 then ''fair''
      else if q < 90 then ''good'' else ''excellent'')"

text \<open>The doubles: the integer multiples \<open>m * 2 ^ q\<close> with \<open>|m| < 2 ^ 53\<close> and
  \<open>q \<ge> - 1074\<close> below \<open>2 ^ 1024\<close>.  A JavaScript number that is not negative, and the
  order of JavaScript numbers (NaN is not comparable).\<close>

definition is_double :: "real \<Rightarrow> bool" where
  "is_double x =
     (\<exists>m q. x = of_int m * pow2 q \<and> \<bar>m\<bar> < 2 ^ 53 \<and> - 1074 \<le> q \<and> \<bar>x\<bar> < pow2 1024)"

definition js_nonneg :: "jsnum \<Rightarrow> bool" where
  "js_nonneg v = (case v of Num r \<Rightarrow> 0 \<le> r | PosInf \<Rightarrow> True | NegInf \<Rightarrow> False
                  | NaN \<Rightarrow> False)"

fun js_le :: "jsnum \<Rightarrow> jsnum \<Rightarrow> bool" where
  "js_le NaN v = False"
| "js_le v NaN = False"
| "js_le NegInf v = True"
| "js_le v PosInf = True"
| "js_le PosInf v = False"
| "js_le v NegInf = False"
| "js_le (Num a) (Num b) = (a \<le> b)"

section \<open>Example inputs\<close>

text \<open>A waypoint sample at the origin with the given error, a sample at the given
  \<open>x\<close> coordinate, and a stored flight with the given average error and start
  voltage.\<close>

definition sample_with_error :: "real \<Rightarrow> sample" where
  "sample_with_error e =
     \<lparr>pos_x = 0, pos_y = 0, pos_z = 0, time = 0, error = Some e, error_xy = None,
      error_z = None, phase = Some ''waypoint'', stabilized = True, networkQuality = None\<rparr>"

definition sample_at :: "real \<Rightarrow> sample" where
  "sample_at x =
     \<lparr>pos_x = x, pos_y = 0, pos_z = 0, time = 0, error = Some 0, error_xy = None,
      error_z = None, phase = Some ''transit'', stabilized = False, networkQuality = None\<rparr>"


text \<open>A transit sample at the origin with the given network quality and error 0.5.\<close>

definition sample_with_quality :: "real \<Rightarrow> sample" where
  "sample_with_quality q =
     \<lparr>pos_x = 0, pos_y = 0, pos_z = 0, time = 0, error = Some 0.5, error_xy = None,
      error_z = None, phase = Some ''transit'', stabilized = False, networkQuality = Some q\<rparr>"

text \<open>A trend series with the given values, dated by position.\<close>

definition series :: "real list \<Rightarrow> data_point list" where
  "series vs = map (\<lambda>(i, v). \<lparr>point_date = int i, point_value = v\<rparr>) (enumerate 0 vs)"

section \<open>Rounding to the nearest double\<close>

lemma pow2_powr: "pow2 k = 2 powr (of_int k)"
proof (cases "0 \<le> k")
  case True
  then have "2 powr (of_int k) = (2::real) powr (real (nat k))" by simp
  also have "\<dots> = 2 ^ nat k" by (subst powr_realpow) simp_all
  finally show ?thesis using True by (simp add: pow2_def)
next
  case False
  then have "(2::real) powr (of_int k) = 2 powr (- real (nat (- k)))" by simp
  also have "\<dots> = 1 / 2 powr (real (nat (- k)))" by (simp add: powr_minus_divide)
  also have "\<dots> = 1 / 2 ^ nat (- k)" by (subst powr_realpow) simp_all
  finally show ?thesis using False by (simp add: pow2_def)
qed

lemma pow2_pos [simp]: "0 < pow2 k"
  by (simp add: pow2_powr)

lemma pow2_nonneg [simp]: "0 \<le> pow2 k"
  using pow2_pos [of k] by linarith

lemma pow2_neq0 [simp]: "pow2 k \<noteq> 0"
  using pow2_pos [of k] by linarith

lemma pow2_not_neg [simp]: "\<not> pow2 k < 0" "\<not> pow2 k \<le> 0"
  using pow2_pos [of k] by linarith+

lemma abs_pow2 [simp]: "\<bar>pow2 k\<bar> = pow2 k"
  by simp

lemma pow2_add: "pow2 (a + b) = pow2 a * pow2 b"
  by (simp add: pow2_powr powr_add)

lemma pow2_mono: "a \<le> b \<Longrightarrow> pow2 a \<le> pow2 b"
  by (simp add: pow2_powr)

lemma pow2_less: "a < b \<Longrightarrow> pow2 a < pow2 b"
  by (simp add: pow2_powr)

lemma pow2_int: "0 \<le> k \<Longrightarrow> pow2 k = of_int (2 ^ nat k)"
  by (simp add: pow2_def)

lemma binade_bounds:
  assumes "x \<noteq> 0"
  shows "pow2 (binade x) \<le> \<bar>x\<bar>" "\<bar>x\<bar> < pow2 (binade x + 1)"
proof -
  from assms have pos: "0 < \<bar>x\<bar>" by simp
  have "of_int (binade x) \<le> log 2 \<bar>x\<bar>" by (simp add: binade_def)
  then have "2 powr (of_int (binade x)) \<le> 2 powr (log 2 \<bar>x\<bar>)" by simp
  with pos show "pow2 (binade x) \<le> \<bar>x\<bar>" by (simp add: pow2_powr)
  have "log 2 \<bar>x\<bar> < of_int (binade x + 1)" by (simp add: binade_def)
  then have "2 powr (log 2 \<bar>x\<bar>) < 2 powr (of_int (binade x + 1))" by simp
  with pos show "\<bar>x\<bar> < pow2 (binade x + 1)" by (simp add: pow2_powr)
qed

lemma binade_unique:
  assumes "pow2 k \<le> \<bar>x\<bar>" "\<bar>x\<bar> < pow2 (k + 1)"
  shows "binade x = k"
proof -
  have pos: "0 < \<bar>x\<bar>" using assms(1) pow2_pos [of k] by linarith
  have "log 2 (pow2 k) \<le> log 2 \<bar>x\<bar>" using assms(1) pos by simp
  then have lo: "of_int k \<le> log 2 \<bar>x\<bar>" by (simp add: pow2_powr)
  have "log 2 \<bar>x\<bar> < log 2 (pow2 (k + 1))" using assms(2) pos by simp
  then have hi: "log 2 \<bar>x\<bar> < of_int k + 1" by (simp add: pow2_powr)
  from lo hi show ?thesis unfolding binade_def by (simp add: floor_eq_iff)
qed

lemma binade_mono:
  assumes "x \<noteq> 0" "\<bar>x\<bar> \<le> \<bar>y\<bar>"
  shows "binade x \<le> binade y"
  unfolding binade_def using assms by (intro floor_mono) simp

lemma binade_minus [simp]: "binade (- x) = binade x"
  by (simp add: binade_def)

lemma rhe_of_int [simp]: "round_half_even (of_int m) = m"
  by (simp add: round_half_even_def)

lemma rhe_ge: "of_int m \<le> y \<Longrightarrow> m \<le> round_half_even y"
proof -
  assume "of_int m \<le> y"
  then have "m \<le> \<lfloor>y\<rfloor>" by (simp add: le_floor_iff)
  then show ?thesis by (simp add: round_half_even_def Let_def)
qed

lemma rhe_le: "y \<le> of_int m \<Longrightarrow> round_half_even y \<le> m"
proof (cases "y = of_int m")
  case True then show ?thesis by simp
next
  case False
  assume "y \<le> of_int m"
  with False have "y < of_int m" by simp
  then have "\<lfloor>y\<rfloor> < m" by (simp add: floor_less_iff)
  then show ?thesis by (simp add: round_half_even_def Let_def)
qed

lemma rhe_minus: "round_half_even (- y) = - round_half_even y"
proof (cases "y = of_int \<lfloor>y\<rfloor>")
  case True
  then obtain m where "y = of_int m" ..
  then have "- y = of_int (- m)" by simp
  then show ?thesis using \<open>y = of_int m\<close> by (simp only: rhe_of_int)
next
  case False
  then have fl: "\<lfloor>- y\<rfloor> = - \<lfloor>y\<rfloor> - 1"
    by (metis ceiling_altdef ceiling_def diff_minus_eq_add minus_diff_eq uminus_add_conv_diff add.inverse_inverse)
  show ?thesis
    unfolding round_half_even_def Let_def fl
    using False by (auto simp add: algebra_simps)
qed

lemma qexp_minus [simp]: "qexp (- x) = qexp x"
  by (simp add: qexp_def)

lemma round64_minus: "round64 (- x) = fneg (round64 x)"
  by (simp add: round64_def Let_def rhe_minus fneg_def)

lemma round64_zero [simp]: "round64 0 = Num 0"
  by (simp add: round64_def)

lemma round64_nonneg: "0 \<le> x \<Longrightarrow> js_nonneg (round64 x)"
proof -
  assume x: "0 \<le> x"
  have "of_int 0 \<le> x / pow2 (qexp x)" using x by simp
  then have "0 \<le> round_half_even (x / pow2 (qexp x))" by (rule rhe_ge)
  then have "0 \<le> of_int (round_half_even (x / pow2 (qexp x))) * pow2 (qexp x)" by simp
  with x show ?thesis by (auto simp add: round64_def Let_def js_nonneg_def)
qed

text \<open>A double is a multiple of every quantum not above its own.\<close>

lemma double_binade:
  assumes "x = of_int m * pow2 q" "\<bar>m\<bar> < 2 ^ 53" "x \<noteq> 0"
  shows "binade x - 52 \<le> q"
proof (rule ccontr)
  assume "\<not> binade x - 52 \<le> q"
  then have "q + 53 \<le> binade x" by simp
  then have "pow2 (q + 53) \<le> pow2 (binade x)" by (rule pow2_mono)
  also have "\<dots> \<le> \<bar>x\<bar>" using assms(3) by (rule binade_bounds)
  finally have "pow2 q * 2 ^ 53 \<le> \<bar>of_int m\<bar> * pow2 q"
    by (simp add: assms(1) pow2_add abs_mult pow2_def [of 53])
  then have "(2::real) ^ 53 \<le> \<bar>of_int m\<bar>"
    using pow2_pos [of q] by (simp add: mult.commute)
  moreover have "\<bar>real_of_int m\<bar> < 2 ^ 53" using assms(2)
    by (metis of_int_abs of_int_less_numeral_power_cancel_iff)
  ultimately show False by simp
qed

lemma double_grid:
  assumes "is_double b" "b \<noteq> 0" "k \<le> qexp b"
  shows "\<exists>j. b = of_int j * pow2 k"
proof -
  from assms(1) obtain m q where b: "b = of_int m * pow2 q" and m: "\<bar>m\<bar> < 2 ^ 53"
    and q: "- 1074 \<le> q" unfolding is_double_def by blast
  from double_binade [OF b m assms(2)] q have "qexp b \<le> q" by (simp add: qexp_def)
  with assms(3) have kq: "0 \<le> q - k" by simp
  have "pow2 q = pow2 (q - k) * pow2 k" by (simp add: pow2_add [symmetric])
  also have "pow2 (q - k) = of_int (2 ^ nat (q - k))" using kq by (rule pow2_int)
  finally have "b = of_int (m * 2 ^ nat (q - k)) * pow2 k" by (simp add: b)
  then show ?thesis ..
qed

lemma round64_double:
  assumes "is_double x"
  shows "round64 x = Num x"
proof (cases "x = 0")
  case True then show ?thesis by simp
next
  case False
  from double_grid [OF assms False order_refl] obtain j where j: "x = of_int j * pow2 (qexp x)" ..
  have "x / pow2 (qexp x) = of_int j" by (subst j) simp
  then have "of_int (round_half_even (x / pow2 (qexp x))) * pow2 (qexp x) = x"
    using j by simp
  moreover have "\<bar>x\<bar> < pow2 1024" using assms unfolding is_double_def by blast
  ultimately show ?thesis using False by (simp add: round64_def Let_def)
qed

lemma double_minus: "is_double b \<Longrightarrow> is_double (- b)"
proof -
  assume "is_double b"
  then obtain m q where "b = of_int m * pow2 q" "\<bar>m\<bar> < 2 ^ 53" "- 1074 \<le> q" "\<bar>b\<bar> < pow2 1024"
    unfolding is_double_def by blast
  then have "- b = of_int (- m) * pow2 q \<and> \<bar>- m\<bar> < 2 ^ 53 \<and> - 1074 \<le> q \<and> \<bar>- b\<bar> < pow2 1024"
    by simp
  then show ?thesis unfolding is_double_def by blast
qed

lemma double_binade_min:
  assumes "is_double b" "0 < b"
  shows "- 1074 \<le> binade b"
proof (rule ccontr)
  assume "\<not> - 1074 \<le> binade b"
  then have "binade b + 1 \<le> - 1074" by simp
  then have le: "pow2 (binade b + 1) \<le> pow2 (- 1074)" by (rule pow2_mono)
  from assms(1) obtain m q where b: "b = of_int m * pow2 q" and q: "- 1074 \<le> q"
    unfolding is_double_def by blast
  from assms(2) b have "0 < real_of_int m" by (simp add: zero_less_mult_iff)
  then have "1 \<le> m" by simp
  then have "1 \<le> real_of_int m" by simp
  then have "1 * pow2 q \<le> real_of_int m * pow2 q" by (intro mult_right_mono) simp_all
  then have "pow2 q \<le> b" by (simp add: b)
  moreover have "pow2 (- 1074) \<le> pow2 q" using q by (rule pow2_mono)
  moreover have "\<bar>b\<bar> < pow2 (binade b + 1)" using assms(2) by (intro binade_bounds) simp
  ultimately show False using le assms(2) by simp
qed

lemma round64_ge:
  assumes d: "is_double b" and bx: "b \<le> x"
  shows "js_le (Num b) (round64 x)"
proof -
  define q where "q = qexp x"
  define r where "r = of_int (round_half_even (x / pow2 q)) * pow2 q"
  have r64: "x \<noteq> 0 \<Longrightarrow> round64 x = (if pow2 1024 \<le> \<bar>r\<bar> then (if 0 < x then PosInf else NegInf) else Num r)"
    by (simp add: round64_def Let_def r_def q_def)
  have via_grid: "b \<le> r" if "b = of_int j * pow2 q" for j
  proof -
    have "of_int j \<le> x / pow2 q" using bx that by (simp add: le_divide_eq)
    then have "j \<le> round_half_even (x / pow2 q)" by (rule rhe_ge)
    then have "of_int j * pow2 q \<le> r" unfolding r_def by (intro mult_right_mono) simp_all
    with that show ?thesis by simp
  qed
  consider (z) "x = 0" | (pn) "0 < x" "b \<le> 0" | (pp) "0 < b" | (nn) "x < 0"
    using bx by linarith
  then show ?thesis
  proof cases
    case z
    with bx show ?thesis by simp
  next
    case pn
    from pn(1) have "js_nonneg (round64 x)" by (intro round64_nonneg) simp
    with pn(2) show ?thesis by (cases "round64 x") (simp_all add: js_nonneg_def)
  next
    case pp
    with bx have xpos: "0 < x" by simp
    have bb: "binade b \<le> binade x" using pp bx by (intro binade_mono) simp_all
    have "b \<le> r"
    proof (cases "binade b = binade x")
      case True
      then have "q \<le> qexp b" by (simp add: q_def qexp_def)
      from double_grid [OF d _ this] pp obtain j where "b = of_int j * pow2 q" by auto
      then show ?thesis by (rule via_grid)
    next
      case False
      with bb have lt: "binade b + 1 \<le> binade x" by simp
      from double_binade_min [OF d pp] lt have "q \<le> binade x" by (simp add: q_def qexp_def)
      then have nn: "0 \<le> binade x - q" by simp
      have "pow2 (binade x) = pow2 (binade x - q) * pow2 q" by (simp add: pow2_add [symmetric])
      also have "pow2 (binade x - q) = of_int (2 ^ nat (binade x - q))" using nn by (rule pow2_int)
      finally have g: "pow2 (binade x) = of_int (2 ^ nat (binade x - q)) * pow2 q" .
      have "pow2 (binade x) \<le> \<bar>x\<bar>" using xpos by (intro binade_bounds) simp
      then have "of_int (2 ^ nat (binade x - q)) \<le> x / pow2 q"
        using xpos by (simp add: g le_divide_eq)
      then have "2 ^ nat (binade x - q) \<le> round_half_even (x / pow2 q)" by (rule rhe_ge)
      then have "of_int (2 ^ nat (binade x - q)) * pow2 q \<le> r"
        unfolding r_def by (intro mult_right_mono) simp_all
      then have "pow2 (binade x) \<le> r" by (simp only: g)
      moreover have "\<bar>b\<bar> < pow2 (binade b + 1)" using pp by (intro binade_bounds) simp
      moreover have "pow2 (binade b + 1) \<le> pow2 (binade x)" using lt by (rule pow2_mono)
      ultimately show ?thesis using pp by simp
    qed
    with xpos show ?thesis by (simp add: r64)
  next
    case nn
    with bx have bneg: "b < 0" by simp
    have "binade x \<le> binade b" using nn bx bneg by (intro binade_mono) simp_all
    then have "q \<le> qexp b" by (simp add: q_def qexp_def)
    from double_grid [OF d _ this] bneg obtain j where "b = of_int j * pow2 q" by auto
    then have br: "b \<le> r" by (rule via_grid)
    have "x / pow2 q \<le> of_int 0" using nn by (simp add: divide_le_eq)
    then have "round_half_even (x / pow2 q) \<le> 0" by (rule rhe_le)
    then have "r \<le> 0" unfolding r_def by (simp add: mult_le_0_iff)
    moreover have "\<bar>b\<bar> < pow2 1024" using d unfolding is_double_def by blast
    ultimately have "\<bar>r\<bar> < pow2 1024" using br by simp
    with nn br show ?thesis by (simp add: r64)
  qed
qed

lemma round64_le:
  assumes "is_double b" "x \<le> b"
  shows "js_le (round64 x) (Num b)"
proof -
  have "js_le (Num (- b)) (round64 (- x))"
    using assms by (intro round64_ge double_minus) simp_all
  then show ?thesis
    by (cases "round64 x") (simp_all add: round64_minus fneg_def)
qed

text \<open>Evaluation of a rounding whose binade is known.\<close>

lemma round64_eval:
  assumes "pow2 e \<le> \<bar>x\<bar>" "\<bar>x\<bar> < pow2 (e + 1)"
    and "q = max (e - 52) (- 1074)"
    and "m = round_half_even (x / pow2 q)"
    and "\<bar>of_int m * pow2 q\<bar> < pow2 1024"
  shows "round64 x = Num (of_int m * pow2 q)"
proof -
  have "binade x = e" using assms(1,2) by (rule binade_unique)
  then have "qexp x = q" by (simp add: qexp_def assms(3))
  moreover have "x \<noteq> 0" using assms(1) pow2_pos [of e] by auto
  ultimately show ?thesis using assms(4,5) by (simp add: round64_def Let_def)
qed

lemma is_double_int: "\<bar>m\<bar> < 2 ^ 53 \<Longrightarrow> is_double (of_int m)"
proof -
  assume m: "\<bar>m\<bar> < 2 ^ 53"
  then have "\<bar>real_of_int m\<bar> < 2 ^ 53"
    by (metis of_int_abs of_int_less_numeral_power_cancel_iff)
  also have "(2::real) ^ 53 \<le> pow2 1024" by (simp add: pow2_def)
  finally have "\<bar>real_of_int m\<bar> < pow2 1024" .
  with m have "real_of_int m = of_int m * pow2 0 \<and> \<bar>m\<bar> < 2 ^ 53 \<and> - 1074 \<le> (0::int) \<and> \<bar>real_of_int m\<bar> < pow2 1024"
    by (simp add: pow2_def)
  then show ?thesis unfolding is_double_def by blast
qed

lemma round64_of_int: "\<bar>m\<bar> < 2 ^ 53 \<Longrightarrow> round64 (of_int m) = Num (of_int m)"
  by (rule round64_double) (rule is_double_int)

lemma round64_not_NaN [simp]: "round64 x \<noteq> NaN"
  by (simp add: round64_def Let_def)

lemma round64_overflow:
  assumes "pow2 1024 \<le> x"
  shows "round64 x = PosInf"
proof -
  have xpos: "0 < x" using assms pow2_pos [of 1024] by linarith
  have "binade (pow2 1024) = 1024" by (rule binade_unique) (simp_all add: pow2_less)
  moreover have "binade (pow2 1024) \<le> binade x" using assms xpos by (intro binade_mono) simp_all
  ultimately have e: "1024 \<le> binade x" by simp
  then have q: "qexp x = binade x - 52" by (simp add: qexp_def)
  have "pow2 (binade x) = pow2 52 * pow2 (qexp x)" by (simp add: q pow2_add [symmetric])
  also have "pow2 52 = of_int (2 ^ 52)" by (simp add: pow2_def)
  finally have g: "pow2 (binade x) = of_int (2 ^ 52) * pow2 (qexp x)" .
  have "pow2 (binade x) \<le> \<bar>x\<bar>" using xpos by (intro binade_bounds) simp
  then have "of_int (2 ^ 52) \<le> x / pow2 (qexp x)" using xpos by (simp add: g le_divide_eq)
  then have "2 ^ 52 \<le> round_half_even (x / pow2 (qexp x))" by (rule rhe_ge)
  then have "of_int (2 ^ 52) * pow2 (qexp x)
             \<le> of_int (round_half_even (x / pow2 (qexp x))) * pow2 (qexp x)"
    by (intro mult_right_mono) simp_all
  then have "pow2 (binade x) \<le> of_int (round_half_even (x / pow2 (qexp x))) * pow2 (qexp x)"
    by (simp only: g)
  moreover have "pow2 1024 \<le> pow2 (binade x)" using e by (rule pow2_mono)
  ultimately have "pow2 1024 \<le> \<bar>of_int (round_half_even (x / pow2 (qexp x))) * pow2 (qexp x)\<bar>"
    by linarith
  with xpos show ?thesis by (simp add: round64_def Let_def)
qed

section \<open>Facts about the operations\<close>

lemma fadd_Num: "fadd (Num a) (Num b) = round64 (a + b)"
  by (simp add: fadd_def)

lemma fsub_Num: "fsub (Num a) (Num b) = round64 (a - b)"
  by (simp add: fsub_def fadd_def fneg_def)

lemma fmul_Num: "fmul (Num a) (Num b) = round64 (a * b)"
  by (simp add: fmul_def)

lemma fdiv_Num: "b \<noteq> 0 \<Longrightarrow> fdiv (Num a) (Num b) = round64 (a / b)"
  by (simp add: fdiv_def)

lemma fdiv_by_zero:
  "fdiv (Num a) (Num 0) = (if 0 < a then PosInf else if a < 0 then NegInf else NaN)"
  by (simp add: fdiv_def)

lemma fdiv_NaN [simp]: "fdiv v NaN = NaN" "fdiv NaN v = NaN"
  by (cases v; simp add: fdiv_def)+

lemma fmul_NaN [simp]: "fmul v NaN = NaN" "fmul NaN v = NaN"
  by (cases v; simp add: fmul_def)+

lemma fadd_NaN [simp]: "fadd v NaN = NaN" "fadd NaN v = NaN"
  by (cases v; simp add: fadd_def)+

lemma fsub_NaN [simp]: "fsub v NaN = NaN" "fsub NaN v = NaN"
  by (simp_all add: fsub_def fneg_def)

lemma reduce_fsum_Nil [simp]: "reduce_fsum f [] = Num 0"
  by (simp add: reduce_fsum_def)

lemma reduce_fsum_snoc: "reduce_fsum f (xs @ [x]) = fadd (reduce_fsum f xs) (f x)"
  by (simp add: reduce_fsum_def)

lemma reduce_fsum_map: "reduce_fsum f xs = reduce_fsum (\<lambda>v. v) (map f xs)"
  by (simp add: reduce_fsum_def foldl_map)

section \<open>Facts about the helpers\<close>

lemma foldl_add_sum_list:
  "foldl (\<lambda>sum v. sum + f v) a xs = a + sum_list (map f xs)"
  by (induction xs arbitrary: a) (simp_all add: add.assoc)

lemma reduce_sum_sum_list: "reduce_sum f xs = sum_list (map f xs)"
  by (simp add: reduce_sum_def foldl_add_sum_list)

lemma reduce_sum_nonneg: "(\<And>v. v \<in> set xs \<Longrightarrow> 0 \<le> f v) \<Longrightarrow> 0 \<le> reduce_sum f xs"
  by (auto simp add: reduce_sum_sum_list intro!: sum_list_nonneg)

lemma sum_list_const:
  "(\<And>v. v \<in> set vs \<Longrightarrow> f v = c) \<Longrightarrow> sum_list (map f vs) = real (length vs) * c"
  by (induction vs) (simp_all add: algebra_simps)

section \<open>Median of calculateStats\<close>

text \<open>
  C2 (as stated, refuted).  The claim says that for an even number of values the median
  is the lower of the two middle elements, index \<open>length / 2 - 1\<close> of the sorted copy.
  For the values 1, 2 the source returns 2, the element at index 1, while index
  \<open>2 / 2 - 1 = 0\<close> holds 1.
\<close>

theorem calculateStats_median_lower_counterexample:
  "median (calculateStats (Some [1, 2])) = 2 \<and>
   sort [1, 2 :: real] ! (length [1, 2 :: real] div 2 - 1) = 1 \<and>
   median (calculateStats (Some [1, 2]))
     \<noteq> sort [1, 2 :: real] ! (length [1, 2 :: real] div 2 - 1)"
  by (simp add: calculateStats_def Let_def)

text \<open>
  C2 (amended).  For every non-empty sequence the median returned by calculateStats is
  the element at index \<open>floor (length / 2)\<close> of the ascending sorted copy, with no
  interpolation; for an even length this is the upper of the two middle elements, so
  the element at index \<open>length / 2 - 1\<close> is at most the median.
\<close>

theorem calculateStats_median_floor_index:
  assumes "vs \<noteq> []"
  shows "median (calculateStats (Some vs)) = sort vs ! (length vs div 2) \<and>
         sort vs ! (length vs div 2 - 1) \<le> median (calculateStats (Some vs))"
proof -
  have m: "median (calculateStats (Some vs)) = sort vs ! (length vs div 2)"
    using assms by (simp add: calculateStats_def Let_def)
  have "length vs div 2 < length (sort vs)"
    using assms by simp
  then have "sort vs ! (length vs div 2 - 1) \<le> sort vs ! (length vs div 2)"
    by (intro sorted_nth_mono) simp_all
  with m show ?thesis by simp
qed

theorem calculateStats_median_floor_index_witness:
  "[1, 2, 3, 4 :: real] \<noteq> [] \<and> median (calculateStats (Some [1, 2, 3, 4])) = 3"
  using calculateStats_median_floor_index [of "[1, 2, 3, 4]"] by simp

section \<open>The analysis object and the comparison route\<close>

text \<open>
  C1.  The claim says that the result of analyzeTrajectory carries turning-behaviour
  metrics and a network-correlation metric, so that the fields the comparison route
  reads from it are defined for every flight.  On the source the object has the keys
  pathAccuracy, basicStats, phaseAnalysis, stabilityMetrics and trajectoryEfficiency
  only: for every flight, \<open>analysis.turnAnalysis\<close> and \<open>analysis.networkCorrelation\<close>
  are undefined, and building the metrics object throws a TypeError at
  \<open>analysis.turnAnalysis.pathSmoothness\<close>.
\<close>

theorem compare_metrics_throws:
  "js_get (analysis_object (analyzeTrajectory fd)) ''turnAnalysis'' = Inr JUndefined \<and>
   js_get (analysis_object (analyzeTrajectory fd)) ''networkCorrelation'' = Inr JUndefined \<and>
   compare_metrics fd stored_average = Inl TypeError"
  by (simp add: compare_metrics_def analysis_object_def efficiency_object_def js_get2_def
      js_then_def Let_def split: option.splits)

section \<open>Relative change of the trend operations\<close>

text \<open>
  C4.  The claim says that the relative changes computed by calculateTrendDirection and
  calculateTrendSummary are finite for every series the operations accept.  Both divide
  by the first average (the first value) without a guard.  For two periods of value 0
  (what generatePerformanceTrends yields for a metric name it does not know) the change
  of the summary is \<open>0 / 0\<close>, NaN; for the values 0 and 5 the change percentage of the
  trend direction is \<open>5 / 0\<close>, Infinity.
\<close>

theorem trend_change_not_finite:
  "calculateTrendSummary
     [\<lparr>period = ''2025-05-13'', trend_value = 0, flightCount = 1, trend_date = 0\<rparr>,
      \<lparr>period = ''2025-05-14'', trend_value = 0, flightCount = 1, trend_date = 86400000\<rparr>]
     = Summary \<lparr>totalDataPoints = 2, overallChange = NaN, trend = ''stable'',
                 averageValue = 0\<rparr> \<and>
   changePercent (series [0, 5]) = PosInf \<and>
   \<not> js_finite (changePercent (series [0, 5]))"
  using round64_of_int [of 5]
  by (simp add: calculateTrendSummary_def changePercent_def half_average_def series_def
      Let_def js_div_def js_scale_def js_gt_def js_lt_def js_finite_def reduce_sum_def
      reduce_fsum_def fadd_Num fsub_Num fdiv_Num fdiv_by_zero fmul_def)

section \<open>Common issues across flights\<close>





section \<open>Network quality buckets\<close>

lemma quality_eq_defaulted:
  "networkQuality p \<noteq> Some 0 \<Longrightarrow> quality p = defaulted_quality p"
  by (simp add: quality_def js_or_def defaulted_quality_def split: option.splits)

lemma segments_counts_sum:
  "(\<Sum>(segment, data)\<leftarrow>segments positionData. length data) = length positionData"
  unfolding segments_def by (induction positionData) auto

lemma bucket_cases:
  "(quality_bucket q = ''excellent'') = (90 \<le> q)"
  "(quality_bucket q = ''good'') = (70 \<le> q \<and> q < 90)"
  "(quality_bucket q = ''fair'') = (50 \<le> q \<and> q < 70)"
  "(quality_bucket q = ''poor'') = (q < 50)"
  by (simp_all add: quality_bucket_def)

lemma segments_by_bucket:
  "segments positionData =
     map (\<lambda>segment.
            (segment, filter (\<lambda>p. quality_bucket (quality p) = segment) positionData))
       [''excellent'', ''good'', ''fair'', ''poor'']"
  by (simp add: segments_def bucket_cases)

lemma segmentAnalysis_lookup:
  "map_of (segmentAnalysis positionData) segment =
     (case map_of (segments positionData) segment of
        None \<Rightarrow> None
      | Some data \<Rightarrow> if data = [] then None
                     else Some (segment_entry data (length positionData)))"
  by (simp add: segmentAnalysis_def segments_def List.map_filter_simps)

lemma segmentAnalysis_counts_sum:
  "(\<Sum>(segment, entry)\<leftarrow>segmentAnalysis positionData. seg_count entry)
     = length positionData"
proof -
  have "(\<Sum>(segment, entry)\<leftarrow>segmentAnalysis positionData. seg_count entry)
        = (\<Sum>(segment, data)\<leftarrow>segments positionData. length data)"
    by (simp add: segmentAnalysis_def segments_def List.map_filter_simps segment_entry_def)
  then show ?thesis by (simp only: segments_counts_sum)
qed

text \<open>
  C8.  The claim says that, with an absent network quality defaulted to 100, every
  sample falls into the bucket its quality has by the thresholds
  \<open>poor < 50 \<le> fair < 70 \<le> good < 90 \<le> excellent\<close>.  The source defaults with
  \<open>p.networkQuality || 100\<close>, which also replaces a reported quality of 0 by 100: a
  sample of quality 0, which the thresholds place in \<open>poor\<close>, is counted in
  \<open>excellent\<close>, and \<open>poor\<close> is omitted as empty.  For every other quality the
  buckets are those of the thresholds (\<open>segments_by_bucket\<close>,
  \<open>quality_eq_defaulted\<close>); the counts add up to the number of samples and empty
  buckets are omitted in every case (\<open>segmentAnalysis_counts_sum\<close>,
  \<open>segmentAnalysis_lookup\<close>).
\<close>

theorem network_quality_zero_bucket:
  "quality_bucket (defaulted_quality (sample_with_quality 0)) = ''poor'' \<and>
   segment_analysis (analyzeNetworkImpact [sample_with_quality 0]) =
     [(''excellent'', \<lparr>seg_count = 1, seg_percentage = 100, seg_averageError = Num 0.5,
                       seg_stabilizationRate = 0\<rparr>)]"
  by (simp add: analyzeNetworkImpact_def segmentAnalysis_def segments_def quality_def js_or_def
      sample_with_quality_def segment_entry_def reduce_sum_def List.map_filter_simps
      quality_bucket_def defaulted_quality_def Let_def)

section \<open>Signs of sums, squares and roots\<close>

lemma js_nonneg_Num [simp]: "js_nonneg (Num r) = (0 \<le> r)"
  by (simp add: js_nonneg_def)

lemma js_nonneg_simps [simp]: "js_nonneg PosInf" "\<not> js_nonneg NegInf" "\<not> js_nonneg NaN"
  by (simp_all add: js_nonneg_def)

lemma fadd_nonneg: "js_nonneg v \<Longrightarrow> js_nonneg w \<Longrightarrow> js_nonneg (fadd v w)"
  by (cases v; cases w) (simp_all add: fadd_def round64_nonneg)

lemma fadd_Num_defined: "v \<noteq> NaN \<Longrightarrow> fadd v (Num b) \<noteq> NaN"
  by (cases v) (simp_all add: fadd_def)

lemma fsub_Num_defined: "w \<noteq> NaN \<Longrightarrow> fsub (Num a) w \<noteq> NaN"
  by (cases w) (simp_all add: fsub_def fadd_def fneg_def)

lemma js_square_nonneg: "v \<noteq> NaN \<Longrightarrow> js_nonneg (js_square v)"
  by (cases v) (simp_all add: js_square_def fmul_def round64_nonneg)

lemma fsqrt_nonneg: "js_nonneg v \<Longrightarrow> js_nonneg (fsqrt v)"
  by (cases v) (simp_all add: fsqrt_def round64_nonneg)

lemma fdiv_length_defined: "v \<noteq> NaN \<Longrightarrow> 0 < n \<Longrightarrow> fdiv v (Num (real n)) \<noteq> NaN"
  by (cases v) (simp_all add: fdiv_def)

lemma fdiv_length_nonneg: "js_nonneg v \<Longrightarrow> 0 < n \<Longrightarrow> js_nonneg (fdiv v (Num (real n)))"
  by (cases v) (simp_all add: fdiv_def round64_nonneg)

lemma reduce_fsum_defined:
  "(\<And>v. v \<in> set vs \<Longrightarrow> \<exists>r. f v = Num r) \<Longrightarrow> reduce_fsum f vs \<noteq> NaN"
proof (induction vs rule: rev_induct)
  case Nil
  then show ?case by simp
next
  case (snoc x xs)
  from snoc.prems obtain r where "f x = Num r" by auto
  moreover have "reduce_fsum f xs \<noteq> NaN" using snoc by simp
  ultimately show ?case by (simp add: reduce_fsum_snoc fadd_Num_defined)
qed

lemma reduce_fsum_nonneg:
  "(\<And>v. v \<in> set vs \<Longrightarrow> js_nonneg (f v)) \<Longrightarrow> js_nonneg (reduce_fsum f vs)"
proof (induction vs rule: rev_induct)
  case Nil
  then show ?case by simp
next
  case (snoc x xs)
  then show ?case by (simp add: reduce_fsum_snoc fadd_nonneg)
qed

lemma calculateMean_defined:
  assumes "\<And>v. v \<in> set vs \<Longrightarrow> \<exists>r. v = Num r"
  shows "calculateMean vs \<noteq> NaN"
proof (cases "vs = []")
  case True
  then show ?thesis by (simp add: calculateMean_def)
next
  case False
  have "reduce_fsum (\<lambda>val. val) vs \<noteq> NaN" using assms by (rule reduce_fsum_defined)
  with False show ?thesis by (simp add: calculateMean_def fdiv_length_defined)
qed

lemma calculateMean_nonneg:
  assumes "\<And>v. v \<in> set vs \<Longrightarrow> js_nonneg v"
  shows "js_nonneg (calculateMean vs)"
proof (cases "vs = []")
  case True
  then show ?thesis by (simp add: calculateMean_def)
next
  case False
  have "js_nonneg (reduce_fsum (\<lambda>val. val) vs)" using assms by (rule reduce_fsum_nonneg)
  with False show ?thesis by (simp add: calculateMean_def fdiv_length_nonneg)
qed

lemma calculateStandardDeviation_nonneg:
  "js_nonneg (calculateStandardDeviation (map Num xs))"
proof (cases "xs = []")
  case True
  then show ?thesis by (simp add: calculateStandardDeviation_def)
next
  case False
  define mean where "mean = calculateMean (map Num xs)"
  have m: "mean \<noteq> NaN" unfolding mean_def by (rule calculateMean_defined) auto
  have "js_nonneg (calculateMean (map (\<lambda>val. js_square (fsub val mean)) (map Num xs)))"
    by (rule calculateMean_nonneg) (auto intro!: js_square_nonneg fsub_Num_defined m)
  then show ?thesis
    using False by (simp add: calculateStandardDeviation_def Let_def mean_def fsqrt_nonneg)
qed

lemma distance3_nonneg:
  "dx \<noteq> NaN \<Longrightarrow> dy \<noteq> NaN \<Longrightarrow> dz \<noteq> NaN \<Longrightarrow> js_nonneg (distance3 dx dy dz)"
  by (simp add: distance3_def fsqrt_nonneg fadd_nonneg js_square_nonneg)

lemma fsub_Num_Num_defined [simp]: "fsub (Num a) (Num b) \<noteq> NaN"
  by (simp add: fsub_Num)

lemma calculateActualDistance_nonneg: "js_nonneg (calculateActualDistance positions)"
  unfolding calculateActualDistance_def
  by (rule reduce_fsum_nonneg) (simp add: Let_def distance3_nonneg)

lemma idealDistanceOf_nonneg: "js_nonneg (idealDistanceOf sq)"
  unfolding idealDistanceOf_def
  by (rule reduce_fsum_nonneg) (simp add: distance3_nonneg split: prod.splits)

section \<open>Some doubles\<close>

lemma dbl_085: "dbl (17 / 20) = 7656119366529843 / 9007199254740992"
  unfolding dbl_def
  by (subst round64_eval [where e = "- 1" and q = "- 53" and m = "7656119366529843"])
     (simp_all add: pow2_def round_half_even_def Let_def)

lemma zero_step_1:
  "fmul (Num 0) (Num 1000) = Num 0"
  by (simp add: fmul_Num)

lemma zero_step_2:
  "fsub (Num 100) (Num 0) = Num 100"
proof -
  have "fsub (Num 100) (Num 0) = round64 (100 - 0)"
    by (rule fsub_Num)
  also have "\<dots> = Num 100"
    by (rule round64_eval [where e = "6" and q = "- 46" and m = "7036874417766400", THEN trans])
       (simp_all add: pow2_def round_half_even_def Let_def)
  finally show ?thesis .
qed

lemma stability_score_zero: "stability_score (Num 0) = Num 100"
  by (simp add: stability_score_def zero_step_1 zero_step_2 js_max_def)

section \<open>A flight without samples\<close>

lemma calculateActualDistance_no_samples: "calculateActualDistance [] = Num 0"
  by (simp add: calculateActualDistance_def)

lemma analyzeTrajectory_no_samples:
  "analyzeTrajectory \<lparr>position_data = [], sequence = sq\<rparr> =
     \<lparr>pathAccuracy =
        \<lparr>averageError = Num 0, maxError = 0, minError = Num 0, totalPoints = 0,
         xyPlaneAccuracy = \<lparr>axis_average = Num 0, axis_max = Num 0, axis_min = Num 0\<rparr>,
         altitudeAccuracy = \<lparr>axis_average = Num 0, axis_max = Num 0, axis_min = Num 0\<rparr>\<rparr>,
      basicStats = \<lparr>basic_totalPoints = 0, waypointPoints = 0, transitPoints = 0\<rparr>,
      phaseAnalysis =
        \<lparr>waypoint_phase = \<lparr>phase_count = 0, phase_averageError = Num 0, stabilizedCount = 0,
                           stabilizationRate = Num 0\<rparr>,
         transit_phase = \<lparr>phase_count = 0, phase_averageError = Num 0, stabilizedCount = 0,
                          stabilizationRate = Num 0\<rparr>\<rparr>,
      stabilityMetrics =
        \<lparr>stabilizationRatio = Num 0, stabilizedPoints = 0, unstabilizedPoints = 0,
         errorVariance = Num 0, overallStabilityScore = Num 100\<rparr>,
      trajectoryEfficiency = calculateEfficiency [] sq\<rparr>"
  by (simp add: analyzeTrajectory_def calculatePathAccuracy_def calculateBasicStats_def
      analyzePhases_def phase_summary_def calculateStabilityMetrics_def
      calculateStandardDeviation_def stability_score_zero Let_def)

lemma calculateEfficiency_degenerate_path:
  assumes "sq = None \<or> (\<exists>s. sq = Some s \<and> (length s < 2 \<or> idealDistanceOf s = Num 0))"
  shows "efficiencyRatio (calculateEfficiency positions sq) = Num (dbl 0.85) \<and>
         idealDistance (calculateEfficiency positions sq) = Num 0"
  using assms
  by (auto simp add: calculateEfficiency_def efficiency_fallback_def Let_def js_gt_def
      js_min_def dbl_085)

lemma calculateEfficiency_no_samples_path:
  assumes "2 \<le> length s" "idealDistanceOf s \<noteq> Num 0"
  shows "efficiencyRatio (calculateEfficiency [] (Some s)) = Num 1"
proof -
  have "js_nonneg (idealDistanceOf s)" by (rule idealDistanceOf_nonneg)
  with assms show ?thesis
    by (cases "idealDistanceOf s")
       (simp_all add: calculateEfficiency_def Let_def calculateActualDistance_no_samples
          js_gt_def fdiv_def js_min_def)
qed

lemma round64_one: "round64 1 = Num 1"
  using round64_of_int [of 1] by simp

lemma idealDistanceOf_unit_path: "idealDistanceOf [(0, 0, 0), (1, 0, 0)] = Num 1"
  by (simp add: idealDistanceOf_def reduce_fsum_def distance3_def js_square_def fsub_Num
      fadd_Num fmul_Num fsqrt_def round64_one)

text \<open>
  C5 (as stated, refuted).  The claim says that every numeric field of the metrics of a
  flight with zero samples is zero, the stability score and the efficiency included.
  The stability score of such a flight is 100 and, without an ideal path, its
  efficiency ratio is the double 0.85.
\<close>

theorem zero_samples_all_zero_counterexample:
  "overallStabilityScore
     (stabilityMetrics (analyzeTrajectory \<lparr>position_data = [], sequence = None\<rparr>))
     = Num 100 \<and>
   efficiencyRatio
     (trajectoryEfficiency (analyzeTrajectory \<lparr>position_data = [], sequence = None\<rparr>))
     = Num (7656119366529843 / 9007199254740992)"
  by (simp add: analyzeTrajectory_no_samples calculateEfficiency_def efficiency_fallback_def
      dbl_085)

text \<open>
  C5 (amended).  Applying analyzeTrajectory to a flight with zero samples succeeds and
  yields degenerate metrics: every numeric field of the path accuracy, of the basic
  counts and of the phase breakdown is zero, and so are the stabilization ratio, the
  stabilized and unstabilized counts, the error variance and the actual distance.  The
  stability score is 100.  When the ideal path is absent, has fewer than two waypoints
  or has length 0, the efficiency ratio is 0.85 and the ideal distance 0; for every
  other ideal path the efficiency ratio is 1 (the ideal distance divided by the actual
  distance 0 is \<open>Infinity\<close>, capped at 1).
\<close>

theorem analyzeTrajectory_zero_samples:
  "pathAccuracy (analyzeTrajectory \<lparr>position_data = [], sequence = sq\<rparr>) =
     \<lparr>averageError = Num 0, maxError = 0, minError = Num 0, totalPoints = 0,
      xyPlaneAccuracy = \<lparr>axis_average = Num 0, axis_max = Num 0, axis_min = Num 0\<rparr>,
      altitudeAccuracy = \<lparr>axis_average = Num 0, axis_max = Num 0, axis_min = Num 0\<rparr>\<rparr> \<and>
   basicStats (analyzeTrajectory \<lparr>position_data = [], sequence = sq\<rparr>) =
     \<lparr>basic_totalPoints = 0, waypointPoints = 0, transitPoints = 0\<rparr> \<and>
   phaseAnalysis (analyzeTrajectory \<lparr>position_data = [], sequence = sq\<rparr>) =
     \<lparr>waypoint_phase = \<lparr>phase_count = 0, phase_averageError = Num 0, stabilizedCount = 0,
                        stabilizationRate = Num 0\<rparr>,
      transit_phase = \<lparr>phase_count = 0, phase_averageError = Num 0, stabilizedCount = 0,
                       stabilizationRate = Num 0\<rparr>\<rparr> \<and>
   stabilityMetrics (analyzeTrajectory \<lparr>position_data = [], sequence = sq\<rparr>) =
     \<lparr>stabilizationRatio = Num 0, stabilizedPoints = 0, unstabilizedPoints = 0,
      errorVariance = Num 0, overallStabilityScore = Num 100\<rparr> \<and>
   actualDistance (trajectoryEfficiency
     (analyzeTrajectory \<lparr>position_data = [], sequence = sq\<rparr>)) = Num 0 \<and>
   (sq = None \<or> (\<exists>s. sq = Some s \<and> (length s < 2 \<or> idealDistanceOf s = Num 0)) \<longrightarrow>
      efficiencyRatio (trajectoryEfficiency
        (analyzeTrajectory \<lparr>position_data = [], sequence = sq\<rparr>)) = Num (dbl 0.85) \<and>
      idealDistance (trajectoryEfficiency
        (analyzeTrajectory \<lparr>position_data = [], sequence = sq\<rparr>)) = Num 0) \<and>
   (sq = Some s \<and> 2 \<le> length s \<and> idealDistanceOf s \<noteq> Num 0 \<longrightarrow>
      efficiencyRatio (trajectoryEfficiency
        (analyzeTrajectory \<lparr>position_data = [], sequence = sq\<rparr>)) = Num 1)"
proof -
  have "actualDistance (calculateEfficiency [] sq) = Num 0"
    by (simp add: calculateEfficiency_def efficiency_fallback_def Let_def
        calculateActualDistance_no_samples split: option.splits)
  then show ?thesis
    using calculateEfficiency_degenerate_path [of sq "[]"]
      calculateEfficiency_no_samples_path [of s]
    by (auto simp add: analyzeTrajectory_no_samples)
qed

theorem analyzeTrajectory_zero_samples_witness:
  "stabilityMetrics
     (analyzeTrajectory \<lparr>position_data = [], sequence = Some [(0, 0, 0), (1, 0, 0)]\<rparr>) =
     \<lparr>stabilizationRatio = Num 0, stabilizedPoints = 0, unstabilizedPoints = 0,
      errorVariance = Num 0, overallStabilityScore = Num 100\<rparr> \<and>
   idealDistanceOf [(0, 0, 0), (1, 0, 0)] = Num 1 \<and>
   efficiencyRatio (trajectoryEfficiency
     (analyzeTrajectory \<lparr>position_data = [], sequence = Some [(0, 0, 0), (1, 0, 0)]\<rparr>))
     = Num 1 \<and>
   efficiencyRatio (trajectoryEfficiency
     (analyzeTrajectory \<lparr>position_data = [], sequence = Some [(0, 0, 1)]\<rparr>)) = Num (dbl 0.85) \<and>
   idealDistance (trajectoryEfficiency
     (analyzeTrajectory \<lparr>position_data = [], sequence = Some [(0, 0, 1)]\<rparr>)) = Num 0 \<and>
   efficiencyRatio (trajectoryEfficiency
     (analyzeTrajectory \<lparr>position_data = [], sequence = None\<rparr>)) = Num (dbl 0.85)"
  using analyzeTrajectory_zero_samples [of "Some [(0, 0, 0), (1, 0, 0)]" "[(0, 0, 0), (1, 0, 0)]"]
        analyzeTrajectory_zero_samples [of "Some [(0, 0, 1)]"]
        analyzeTrajectory_zero_samples [of None]
  by (simp add: idealDistanceOf_unit_path)

section \<open>Efficiency ratio\<close>

lemma fadd_PosInf [simp]: "fadd PosInf (Num b) = PosInf" "fadd (Num a) PosInf = PosInf"
  by (simp_all add: fadd_def)

lemma fsqrt_PosInf [simp]: "fsqrt PosInf = PosInf"
  by (simp add: fsqrt_def)

lemma capped_ratio:
  assumes "js_nonneg i" "js_nonneg a" "js_gt i 0"
  shows "(js_min 1 (fdiv i a) = NaN \<and> i = PosInf \<and> a = PosInf) \<or>
         (\<exists>r. js_min 1 (fdiv i a) = Num r \<and> 0 \<le> r \<and> r \<le> 1)"
proof (cases i)
  case (Num x)
  with assms(3) have x: "0 < x" by (simp add: js_gt_def)
  show ?thesis
  proof (cases a)
    case (Num y)
    show ?thesis
    proof (cases "y = 0")
      case True
      with \<open>i = Num x\<close> \<open>a = Num y\<close> x show ?thesis by (simp add: fdiv_def js_min_def)
    next
      case False
      with assms(2) \<open>a = Num y\<close> x have "0 \<le> x / y" by simp
      then have "js_nonneg (round64 (x / y))" by (rule round64_nonneg)
      with False \<open>i = Num x\<close> \<open>a = Num y\<close> show ?thesis
        by (cases "round64 (x / y)") (simp_all add: fdiv_def js_min_def)
    qed
  qed (use assms \<open>i = Num x\<close> in \<open>simp_all add: fdiv_def js_min_def\<close>)
next
  case PosInf
  with assms(2) show ?thesis by (cases a) (simp_all add: fdiv_def js_min_def)
qed (use assms in simp_all)

lemma fallback_in_range:
  "e = Num (dbl 0.85) \<Longrightarrow> \<exists>r. e = Num r \<and> 0 \<le> r \<and> r \<le> 1"
  by (rule exI [of _ "dbl 0.85"]) (simp add: dbl_085)

text \<open>The ratio is a number in [0, 1] unless both distances have overflowed to Infinity,
  and it is the double 0.85 when the ideal path is absent, has fewer than two waypoints
  or has ideal distance 0.\<close>

lemma calculateEfficiency_ratio_range:
  "(efficiencyRatio (calculateEfficiency positions sq) = NaN \<and>
    calculateActualDistance positions = PosInf \<and>
    (\<exists>s. sq = Some s \<and> idealDistanceOf s = PosInf)) \<or>
   (\<exists>r. efficiencyRatio (calculateEfficiency positions sq) = Num r \<and> 0 \<le> r \<and> r \<le> 1)"
proof (cases "sq = None \<or> (\<exists>s. sq = Some s \<and> (length s < 2 \<or> idealDistanceOf s = Num 0))")
  case True
  then have "efficiencyRatio (calculateEfficiency positions sq) = Num (dbl 0.85)"
    using calculateEfficiency_degenerate_path by blast
  then show ?thesis using fallback_in_range by blast
next
  case False
  then obtain s where s: "sq = Some s" "\<not> length s < 2" by auto
  show ?thesis
  proof (cases "js_gt (idealDistanceOf s) 0")
    case True
    from capped_ratio [OF idealDistanceOf_nonneg calculateActualDistance_nonneg True,
        of positions]
    show ?thesis using s True by (auto simp add: calculateEfficiency_def Let_def)
  next
    case False
    with s have "efficiencyRatio (calculateEfficiency positions sq) = Num (dbl 0.85)"
      by (simp add: calculateEfficiency_def Let_def js_min_def dbl_085)
    then show ?thesis using fallback_in_range by blast
  qed
qed

lemma dbl_1e200: "dbl (10 ^ 200) = 99999999999999996973312221251036165947450327545502362648241750950346848435554075534196338404706251868027512415973882408182135734368278484639385041047239877871023591066789981811181813306167128854888448"
  unfolding dbl_def
  by (subst round64_eval [where e = "664" and q = "612" and m = "5883593420661338"])
     (simp_all add: pow2_def round_half_even_def Let_def)

lemma overflow_step_1:
  "fsub (Num 99999999999999996973312221251036165947450327545502362648241750950346848435554075534196338404706251868027512415973882408182135734368278484639385041047239877871023591066789981811181813306167128854888448) (Num 0) = Num 99999999999999996973312221251036165947450327545502362648241750950346848435554075534196338404706251868027512415973882408182135734368278484639385041047239877871023591066789981811181813306167128854888448"
proof -
  have "fsub (Num 99999999999999996973312221251036165947450327545502362648241750950346848435554075534196338404706251868027512415973882408182135734368278484639385041047239877871023591066789981811181813306167128854888448) (Num 0) = round64 (99999999999999996973312221251036165947450327545502362648241750950346848435554075534196338404706251868027512415973882408182135734368278484639385041047239877871023591066789981811181813306167128854888448 - 0)"
    by (rule fsub_Num)
  also have "\<dots> = Num 99999999999999996973312221251036165947450327545502362648241750950346848435554075534196338404706251868027512415973882408182135734368278484639385041047239877871023591066789981811181813306167128854888448"
    by (rule round64_eval [where e = "664" and q = "612" and m = "5883593420661338", THEN trans])
       (simp_all add: pow2_def round_half_even_def Let_def)
  finally show ?thesis .
qed

lemma overflow_step_2:
  "fsub (Num 0) (Num 0) = Num 0"
  by (simp add: fsub_Num)

lemma overflow_step_3:
  "fmul (Num 0) (Num 0) = Num 0"
  by (simp add: fmul_Num)

lemma overflow_square: "js_square (Num 99999999999999996973312221251036165947450327545502362648241750950346848435554075534196338404706251868027512415973882408182135734368278484639385041047239877871023591066789981811181813306167128854888448) = PosInf"
  unfolding js_square_def fmul_Num by (rule round64_overflow) (simp add: pow2_def)

lemma overflow_distance:
  "distance3 (fsub (Num 99999999999999996973312221251036165947450327545502362648241750950346848435554075534196338404706251868027512415973882408182135734368278484639385041047239877871023591066789981811181813306167128854888448) (Num 0)) (fsub (Num 0) (Num 0)) (fsub (Num 0) (Num 0)) = PosInf"
  by (simp add: distance3_def overflow_step_1 overflow_step_2 overflow_square
      js_square_def [of "Num 0"] overflow_step_3)

text \<open>
  C6.  The claim says that the efficiency ratio lies in [0, 1] for every sample sequence
  and every ideal path.  For the two samples \<open>(0, 0, 0)\<close> and \<open>(1e200, 0, 0)\<close> with the
  ideal path between the same two points, \<open>Math.pow(1e200, 2)\<close> overflows to Infinity,
  both distances are Infinity, their quotient is NaN and \<open>Math.min(1.0, NaN)\<close> is NaN.
\<close>

theorem calculateEfficiency_overflow_NaN:
  "efficiencyRatio
     (calculateEfficiency [sample_at 0, sample_at (dbl (10 ^ 200))]
        (Some [(0, 0, 0), (dbl (10 ^ 200), 0, 0)])) = NaN"
  unfolding dbl_1e200
  by (simp add: calculateEfficiency_def calculateActualDistance_def idealDistanceOf_def
      reduce_fsum_def sample_at_def Let_def overflow_distance js_gt_def js_min_def fdiv_def)

section \<open>Stability score\<close>

lemma dbl_tenth: "dbl (1 / 10) = 3602879701896397 / 36028797018963968"
  unfolding dbl_def
  by (subst round64_eval [where e = "- 4" and q = "- 56" and m = "7205759403792794"])
     (simp_all add: pow2_def round_half_even_def Let_def)

lemma dbl_hundredth: "dbl (1 / 100) = 5764607523034235 / 576460752303423488"
  unfolding dbl_def
  by (subst round64_eval [where e = "- 7" and q = "- 59" and m = "5764607523034235"])
     (simp_all add: pow2_def round_half_even_def Let_def)

lemma dbl_fiftieth: "dbl (1 / 50) = 5764607523034235 / 288230376151711744"
  unfolding dbl_def
  by (subst round64_eval [where e = "- 6" and q = "- 58" and m = "5764607523034235"])
     (simp_all add: pow2_def round_half_even_def Let_def)

lemma score_step_1:
  "fadd (Num 0) (Num (3602879701896397 / 36028797018963968)) = Num (3602879701896397 / 36028797018963968)"
proof -
  have "fadd (Num 0) (Num (3602879701896397 / 36028797018963968)) = round64 (0 + (3602879701896397 / 36028797018963968))"
    by (rule fadd_Num)
  also have "\<dots> = Num (3602879701896397 / 36028797018963968)"
    by (rule round64_eval [where e = "- 4" and q = "- 56" and m = "7205759403792794", THEN trans])
       (simp_all add: pow2_def round_half_even_def Let_def)
  finally show ?thesis .
qed

lemma score_step_2:
  "fadd (Num (3602879701896397 / 36028797018963968)) (Num (3602879701896397 / 36028797018963968)) = Num (3602879701896397 / 18014398509481984)"
proof -
  have "fadd (Num (3602879701896397 / 36028797018963968)) (Num (3602879701896397 / 36028797018963968)) = round64 ((3602879701896397 / 36028797018963968) + (3602879701896397 / 36028797018963968))"
    by (rule fadd_Num)
  also have "\<dots> = Num (3602879701896397 / 18014398509481984)"
    by (rule round64_eval [where e = "- 3" and q = "- 55" and m = "7205759403792794", THEN trans])
       (simp_all add: pow2_def round_half_even_def Let_def)
  finally show ?thesis .
qed

lemma score_step_3:
  "fadd (Num (3602879701896397 / 18014398509481984)) (Num (3602879701896397 / 36028797018963968)) = Num (1351079888211149 / 4503599627370496)"
proof -
  have "fadd (Num (3602879701896397 / 18014398509481984)) (Num (3602879701896397 / 36028797018963968)) = round64 ((3602879701896397 / 18014398509481984) + (3602879701896397 / 36028797018963968))"
    by (rule fadd_Num)
  also have "\<dots> = Num (1351079888211149 / 4503599627370496)"
    by (rule round64_eval [where e = "- 2" and q = "- 54" and m = "5404319552844596", THEN trans])
       (simp_all add: pow2_def round_half_even_def Let_def)
  finally show ?thesis .
qed

lemma score_step_4:
  "fdiv (Num (1351079888211149 / 4503599627370496)) (Num 3) = Num (7205759403792795 / 72057594037927936)"
proof -
  have "fdiv (Num (1351079888211149 / 4503599627370496)) (Num 3) = round64 ((1351079888211149 / 4503599627370496) / 3)"
    by (rule fdiv_Num) simp
  also have "\<dots> = Num (7205759403792795 / 72057594037927936)"
    by (rule round64_eval [where e = "- 4" and q = "- 56" and m = "7205759403792795", THEN trans])
       (simp_all add: pow2_def round_half_even_def Let_def)
  finally show ?thesis .
qed

lemma score_step_5:
  "fsub (Num (3602879701896397 / 36028797018963968)) (Num (7205759403792795 / 72057594037927936)) = Num (- (1 / 72057594037927936))"
proof -
  have "fsub (Num (3602879701896397 / 36028797018963968)) (Num (7205759403792795 / 72057594037927936)) = round64 ((3602879701896397 / 36028797018963968) - (7205759403792795 / 72057594037927936))"
    by (rule fsub_Num)
  also have "\<dots> = Num (- (1 / 72057594037927936))"
    by (rule round64_eval [where e = "- 56" and q = "- 108" and m = "- 4503599627370496", THEN trans])
       (simp_all add: pow2_def round_half_even_def Let_def)
  finally show ?thesis .
qed

lemma score_step_6:
  "fmul (Num (- (1 / 72057594037927936))) (Num (- (1 / 72057594037927936))) = Num (1 / 5192296858534827628530496329220096)"
proof -
  have "fmul (Num (- (1 / 72057594037927936))) (Num (- (1 / 72057594037927936))) = round64 ((- (1 / 72057594037927936)) * (- (1 / 72057594037927936)))"
    by (rule fmul_Num)
  also have "\<dots> = Num (1 / 5192296858534827628530496329220096)"
    by (rule round64_eval [where e = "- 112" and q = "- 164" and m = "4503599627370496", THEN trans])
       (simp_all add: pow2_def round_half_even_def Let_def)
  finally show ?thesis .
qed

lemma score_step_7:
  "fadd (Num 0) (Num (1 / 5192296858534827628530496329220096)) = Num (1 / 5192296858534827628530496329220096)"
proof -
  have "fadd (Num 0) (Num (1 / 5192296858534827628530496329220096)) = round64 (0 + (1 / 5192296858534827628530496329220096))"
    by (rule fadd_Num)
  also have "\<dots> = Num (1 / 5192296858534827628530496329220096)"
    by (rule round64_eval [where e = "- 112" and q = "- 164" and m = "4503599627370496", THEN trans])
       (simp_all add: pow2_def round_half_even_def Let_def)
  finally show ?thesis .
qed

lemma score_step_8:
  "fadd (Num (1 / 5192296858534827628530496329220096)) (Num (1 / 5192296858534827628530496329220096)) = Num (1 / 2596148429267413814265248164610048)"
proof -
  have "fadd (Num (1 / 5192296858534827628530496329220096)) (Num (1 / 5192296858534827628530496329220096)) = round64 ((1 / 5192296858534827628530496329220096) + (1 / 5192296858534827628530496329220096))"
    by (rule fadd_Num)
  also have "\<dots> = Num (1 / 2596148429267413814265248164610048)"
    by (rule round64_eval [where e = "- 111" and q = "- 163" and m = "4503599627370496", THEN trans])
       (simp_all add: pow2_def round_half_even_def Let_def)
  finally show ?thesis .
qed

lemma score_step_9:
  "fadd (Num (1 / 2596148429267413814265248164610048)) (Num (1 / 5192296858534827628530496329220096)) = Num (3 / 5192296858534827628530496329220096)"
proof -
  have "fadd (Num (1 / 2596148429267413814265248164610048)) (Num (1 / 5192296858534827628530496329220096)) = round64 ((1 / 2596148429267413814265248164610048) + (1 / 5192296858534827628530496329220096))"
    by (rule fadd_Num)
  also have "\<dots> = Num (3 / 5192296858534827628530496329220096)"
    by (rule round64_eval [where e = "- 111" and q = "- 163" and m = "6755399441055744", THEN trans])
       (simp_all add: pow2_def round_half_even_def Let_def)
  finally show ?thesis .
qed

lemma score_step_10:
  "fdiv (Num (3 / 5192296858534827628530496329220096)) (Num 3) = Num (1 / 5192296858534827628530496329220096)"
proof -
  have "fdiv (Num (3 / 5192296858534827628530496329220096)) (Num 3) = round64 ((3 / 5192296858534827628530496329220096) / 3)"
    by (rule fdiv_Num) simp
  also have "\<dots> = Num (1 / 5192296858534827628530496329220096)"
    by (rule round64_eval [where e = "- 112" and q = "- 164" and m = "4503599627370496", THEN trans])
       (simp_all add: pow2_def round_half_even_def Let_def)
  finally show ?thesis .
qed

lemma score_step_11:
  "fmul (Num (1 / 72057594037927936)) (Num 1000) = Num (125 / 9007199254740992)"
proof -
  have "fmul (Num (1 / 72057594037927936)) (Num 1000) = round64 ((1 / 72057594037927936) * 1000)"
    by (rule fmul_Num)
  also have "\<dots> = Num (125 / 9007199254740992)"
    by (rule round64_eval [where e = "- 47" and q = "- 99" and m = "8796093022208000", THEN trans])
       (simp_all add: pow2_def round_half_even_def Let_def)
  finally show ?thesis .
qed

lemma score_step_12:
  "fsub (Num 100) (Num (125 / 9007199254740992)) = Num (7036874417766399 / 70368744177664)"
proof -
  have "fsub (Num 100) (Num (125 / 9007199254740992)) = round64 (100 - (125 / 9007199254740992))"
    by (rule fsub_Num)
  also have "\<dots> = Num (7036874417766399 / 70368744177664)"
    by (rule round64_eval [where e = "6" and q = "- 46" and m = "7036874417766399", THEN trans])
       (simp_all add: pow2_def round_half_even_def Let_def)
  finally show ?thesis .
qed

lemma score_step_13:
  "fmul (Num (5764607523034235 / 576460752303423488)) (Num 1000) = Num 10"
proof -
  have "fmul (Num (5764607523034235 / 576460752303423488)) (Num 1000) = round64 ((5764607523034235 / 576460752303423488) * 1000)"
    by (rule fmul_Num)
  also have "\<dots> = Num 10"
    by (rule round64_eval [where e = "3" and q = "- 49" and m = "5629499534213120", THEN trans])
       (simp_all add: pow2_def round_half_even_def Let_def)
  finally show ?thesis .
qed

lemma score_step_14:
  "fsub (Num 100) (Num 10) = Num 90"
proof -
  have "fsub (Num 100) (Num 10) = round64 (100 - 10)"
    by (rule fsub_Num)
  also have "\<dots> = Num 90"
    by (rule round64_eval [where e = "6" and q = "- 46" and m = "6333186975989760", THEN trans])
       (simp_all add: pow2_def round_half_even_def Let_def)
  finally show ?thesis .
qed

lemma score_step_15:
  "fmul (Num (5764607523034235 / 288230376151711744)) (Num 1000) = Num 20"
proof -
  have "fmul (Num (5764607523034235 / 288230376151711744)) (Num 1000) = round64 ((5764607523034235 / 288230376151711744) * 1000)"
    by (rule fmul_Num)
  also have "\<dots> = Num 20"
    by (rule round64_eval [where e = "4" and q = "- 48" and m = "5629499534213120", THEN trans])
       (simp_all add: pow2_def round_half_even_def Let_def)
  finally show ?thesis .
qed

lemma score_step_16:
  "fsub (Num 100) (Num 20) = Num 80"
proof -
  have "fsub (Num 100) (Num 20) = round64 (100 - 20)"
    by (rule fsub_Num)
  also have "\<dots> = Num 80"
    by (rule round64_eval [where e = "6" and q = "- 46" and m = "5629499534213120", THEN trans])
       (simp_all add: pow2_def round_half_even_def Let_def)
  finally show ?thesis .
qed

lemma score_step_17:
  "fmul (Num 0) (Num 1000) = Num 0"
  by (simp add: fmul_Num)

lemma score_step_18:
  "fsub (Num 100) (Num 0) = Num 100"
proof -
  have "fsub (Num 100) (Num 0) = round64 (100 - 0)"
    by (rule fsub_Num)
  also have "\<dots> = Num 100"
    by (rule round64_eval [where e = "6" and q = "- 46" and m = "7036874417766400", THEN trans])
       (simp_all add: pow2_def round_half_even_def Let_def)
  finally show ?thesis .
qed

lemma score_sqrt:
  "fsqrt (Num (1 / 5192296858534827628530496329220096)) = Num (1 / 72057594037927936)"
proof -
  have root: "sqrt (1 / 5192296858534827628530496329220096) = 1 / 72057594037927936"
    by (rule real_sqrt_unique) (simp_all add: power2_eq_square)
  have "fsqrt (Num (1 / 5192296858534827628530496329220096))
        = round64 (sqrt (1 / 5192296858534827628530496329220096))"
    by (simp add: fsqrt_def)
  also have "\<dots> = round64 (1 / 72057594037927936)"
    by (simp only: root)
  also have "\<dots> = Num (1 / 72057594037927936)"
    by (rule round64_eval [where e = "- 56" and q = "- 108" and m = "4503599627370496", THEN trans])
       (simp_all add: pow2_def round_half_even_def Let_def)
  finally show ?thesis .
qed

lemma equal_errors_deviation:
  "calculateStandardDeviation [Num (3602879701896397 / 36028797018963968), Num (3602879701896397 / 36028797018963968), Num (3602879701896397 / 36028797018963968)]
     = Num (1 / 72057594037927936)"
  by (simp add: calculateStandardDeviation_def calculateMean_def reduce_fsum_def Let_def
      js_square_def score_step_1 score_step_2 score_step_3 score_step_4 score_step_5
      score_step_6 score_step_7 score_step_8 score_step_9 score_step_10 score_sqrt)

lemma population_stddev_const:
  assumes "\<And>v. v \<in> set vs \<Longrightarrow> v = c"
  shows "population_stddev vs = 0"
proof (cases "vs = []")
  case True
  then show ?thesis by (simp add: population_stddev_def)
next
  case False
  have s: "sum_list vs = real (length vs) * c"
    using sum_list_const [of vs "\<lambda>v. v" c] assms by simp
  from False have m: "sum_list vs / real (length vs) = c" by (simp add: s)
  have "(\<Sum>v\<leftarrow>vs. (v - c) ^ 2) = real (length vs) * 0"
    by (rule sum_list_const) (simp add: assms)
  with False m show ?thesis by (simp add: population_stddev_def)
qed

text \<open>
  C7 (as stated, refuted).  The claim says that a flight with zero error variance scores
  exactly 100.  Three samples of error 0.1 have equal errors, so the population standard
  deviation of their errors is 0; but the mean the source computes,
  \<open>(0.1 + 0.1 + 0.1) / 3\<close>, is the double above 0.1, the computed deviation is \<open>2 ^ - 56\<close>
  and the score is \<open>100 - 2 ^ - 46\<close>, printed 99.99999999999999.
\<close>

theorem overallStabilityScore_equal_errors_counterexample:
  "map error_value
     [sample_with_error (dbl 0.1), sample_with_error (dbl 0.1), sample_with_error (dbl 0.1)]
     = [dbl 0.1, dbl 0.1, dbl 0.1] \<and>
   population_stddev
     (map error_value
        [sample_with_error (dbl 0.1), sample_with_error (dbl 0.1), sample_with_error (dbl 0.1)])
     = 0 \<and>
   errorVariance
     (calculateStabilityMetrics
        [sample_with_error (dbl 0.1), sample_with_error (dbl 0.1), sample_with_error (dbl 0.1)])
     = Num (1 / 2 ^ 56) \<and>
   overallStabilityScore
     (calculateStabilityMetrics
        [sample_with_error (dbl 0.1), sample_with_error (dbl 0.1), sample_with_error (dbl 0.1)])
     = Num (100 - 1 / 2 ^ 46)"
proof -
  have "population_stddev [dbl 0.1, dbl 0.1, dbl 0.1] = 0"
    by (rule population_stddev_const [where c = "dbl 0.1"]) auto
  then show ?thesis
    by (simp add: error_value_def sample_with_error_def calculateStabilityMetrics_def Let_def
        js_or_def dbl_tenth equal_errors_deviation stability_score_def score_step_11
        score_step_12 js_max_def)
qed

lemma stability_score_range:
  assumes "js_nonneg v"
  shows "\<exists>r. stability_score v = Num r \<and> 0 \<le> r \<and> r \<le> 100"
proof -
  have inf: "stability_score v = Num 0" if "fmul v (Num 1000) = PosInf"
    using that by (simp add: stability_score_def fsub_def fneg_def fadd_def js_max_def)
  have fin: "\<exists>r. stability_score v = Num r \<and> 0 \<le> r \<and> r \<le> 100"
    if t: "fmul v (Num 1000) = Num b" and b: "0 \<le> b" for b
  proof -
    have "js_le (round64 (100 - b)) (Num 100)"
      using round64_le [OF is_double_int [of 100], of "100 - b"] b by simp
    then show ?thesis
      by (cases "round64 (100 - b)")
         (simp_all add: stability_score_def t fsub_Num js_max_def)
  qed
  show ?thesis
  proof (cases v)
    case (Num a)
    with assms have "js_nonneg (round64 (a * 1000))" by (intro round64_nonneg) simp
    then show ?thesis
      using inf fin Num by (cases "round64 (a * 1000)") (auto simp add: fmul_Num)
  next
    case PosInf
    then have "fmul v (Num 1000) = PosInf" by (simp add: fmul_def)
    then show ?thesis using inf by simp
  qed (use assms in simp_all)
qed

text \<open>
  C7 (amended).  For every sample sequence the overall stability score is
  \<open>max (0, 100 - errorVariance * 1000)\<close> evaluated in double arithmetic, where
  \<open>errorVariance\<close> is the standard deviation of the per-sample errors as the source
  computes it, with its roundings (an absent error counting as 0).  The score always
  lies in [0, 100]; a flight whose computed \<open>errorVariance\<close> is 0 scores exactly 100; and
  raising the variance term from 0.01 to 0.02 lowers the score from 90 to 80, by exactly
  10.
\<close>

theorem overallStabilityScore_formula:
  "overallStabilityScore (calculateStabilityMetrics ps) =
     js_max 0 (fsub (Num 100) (fmul (errorVariance (calculateStabilityMetrics ps)) (Num 1000))) \<and>
   errorVariance (calculateStabilityMetrics ps) =
     calculateStandardDeviation (map (\<lambda>p. Num (error_value p)) ps) \<and>
   (\<exists>r. overallStabilityScore (calculateStabilityMetrics ps) = Num r \<and> 0 \<le> r \<and> r \<le> 100) \<and>
   (errorVariance (calculateStabilityMetrics ps) = Num 0 \<longrightarrow>
      overallStabilityScore (calculateStabilityMetrics ps) = Num 100) \<and>
   (errorVariance (calculateStabilityMetrics ps) = Num (dbl 0.01) \<longrightarrow>
      overallStabilityScore (calculateStabilityMetrics ps) = Num 90) \<and>
   (errorVariance (calculateStabilityMetrics ps) = Num (dbl 0.02) \<longrightarrow>
      overallStabilityScore (calculateStabilityMetrics ps) = Num 80)"
proof -
  have e: "(\<lambda>p. Num (js_or (error p) 0)) = (\<lambda>p. Num (error_value p))"
    by (rule ext) (simp add: js_or_def error_value_def split: option.splits)
  have ev: "errorVariance (calculateStabilityMetrics ps) =
            calculateStandardDeviation (map (\<lambda>p. Num (error_value p)) ps)"
    by (simp add: calculateStabilityMetrics_def Let_def e)
  have sc: "overallStabilityScore (calculateStabilityMetrics ps) =
            stability_score (errorVariance (calculateStabilityMetrics ps))"
    by (simp add: calculateStabilityMetrics_def Let_def)
  have "js_nonneg (calculateStandardDeviation (map Num (map error_value ps)))"
    by (rule calculateStandardDeviation_nonneg)
  then have "js_nonneg (errorVariance (calculateStabilityMetrics ps))"
    by (simp add: ev comp_def)
  then have range: "\<exists>r. overallStabilityScore (calculateStabilityMetrics ps) = Num r \<and>
                        0 \<le> r \<and> r \<le> 100"
    unfolding sc by (rule stability_score_range)
  have s1: "stability_score (Num (dbl 0.01)) = Num 90"
    by (simp add: stability_score_def dbl_hundredth score_step_13 score_step_14 js_max_def)
  have s2: "stability_score (Num (dbl 0.02)) = Num 80"
    by (simp add: stability_score_def dbl_fiftieth score_step_15 score_step_16 js_max_def)
  show ?thesis
    using ev range s1 s2 stability_score_zero
    by (auto simp add: sc stability_score_def)
qed

text \<open>Evaluation of a rounded square root from bounds on the radicand.\<close>

lemma rhe_near:
  assumes "of_int m - 1 / 2 < y" "y < of_int m + 1 / 2"
  shows "round_half_even y = m"
proof (cases "of_int m \<le> y")
  case True
  with assms(2) have "\<lfloor>y\<rfloor> = m" by (intro floor_unique) simp_all
  with assms(2) show ?thesis by (simp add: round_half_even_def Let_def)
next
  case False
  with assms(1) have "\<lfloor>y\<rfloor> = m - 1" by (intro floor_unique) simp_all
  with assms(1) show ?thesis by (simp add: round_half_even_def Let_def)
qed

lemma fsqrt_eval:
  assumes "(pow2 e)\<^sup>2 \<le> s" "s < (pow2 (e + 1))\<^sup>2"
    and "q = max (e - 52) (- 1074)"
    and "((of_int m - 1 / 2) * pow2 q)\<^sup>2 < s" "s < ((of_int m + 1 / 2) * pow2 q)\<^sup>2"
    and "1 \<le> m" "\<bar>of_int m * pow2 q\<bar> < pow2 1024"
  shows "fsqrt (Num s) = Num (of_int m * pow2 q)"
proof -
  have s: "0 \<le> s" using assms(1) by (rule order_trans [rotated]) simp
  have lo: "pow2 e \<le> sqrt s" using assms(1) by (rule real_le_rsqrt)
  have hi: "sqrt s < pow2 (e + 1)" using assms(2) by (intro real_less_lsqrt) simp_all
  have "(of_int m - 1 / 2) * pow2 q < sqrt s" using assms(4) by (rule real_less_rsqrt)
  then have a: "of_int m - 1 / 2 < sqrt s / pow2 q"
    by (simp add: pos_less_divide_eq)
  have "0 \<le> (real_of_int m + 1 / 2) * pow2 q" using assms(6) by simp
  with assms(5) have "sqrt s < (of_int m + 1 / 2) * pow2 q" by (intro real_less_lsqrt)
  then have b: "sqrt s / pow2 q < of_int m + 1 / 2"
    by (simp add: pos_divide_less_eq)
  have m: "m = round_half_even (sqrt s / pow2 q)"
    using a b by (rule rhe_near [symmetric])
  have "round64 (sqrt s) = Num (of_int m * pow2 q)"
  proof (rule round64_eval)
    show "pow2 e \<le> \<bar>sqrt s\<bar>" using lo s by simp
    show "\<bar>sqrt s\<bar> < pow2 (e + 1)" using hi s by simp
    show "q = max (e - 52) (- 1074)" by (rule assms(3))
    show "m = round_half_even (sqrt s / pow2 q)" by (rule m)
    show "\<bar>of_int m * pow2 q\<bar> < pow2 1024" by (rule assms(7))
  qed
  with s show ?thesis by (simp add: fsqrt_def)
qed

lemma dbl_twentyfifth: "dbl (1 / 25) = 5764607523034235 / 144115188075855872"
  unfolding dbl_def
  by (subst round64_eval [where e = "- 5" and q = "- 57" and m = "5764607523034235"])
     (simp_all add: pow2_def round_half_even_def Let_def)

lemma variance_step_1:
  "fadd (Num 0) (Num 0) = Num 0"
  by (simp add: fadd_Num)

lemma variance_step_2:
  "fadd (Num 0) (Num (5764607523034235 / 288230376151711744)) = Num (5764607523034235 / 288230376151711744)"
proof -
  have "fadd (Num 0) (Num (5764607523034235 / 288230376151711744)) = round64 (0 + (5764607523034235 / 288230376151711744))"
    by (rule fadd_Num)
  also have "\<dots> = Num (5764607523034235 / 288230376151711744)"
    by (rule round64_eval [where e = "- 6" and q = "- 58" and m = "5764607523034235", THEN trans])
       (simp_all add: pow2_def round_half_even_def Let_def)
  finally show ?thesis .
qed

lemma variance_step_3:
  "fdiv (Num (5764607523034235 / 288230376151711744)) (Num 2) = Num (5764607523034235 / 576460752303423488)"
proof -
  have "fdiv (Num (5764607523034235 / 288230376151711744)) (Num 2) = round64 ((5764607523034235 / 288230376151711744) / 2)"
    by (rule fdiv_Num) simp
  also have "\<dots> = Num (5764607523034235 / 576460752303423488)"
    by (rule round64_eval [where e = "- 7" and q = "- 59" and m = "5764607523034235", THEN trans])
       (simp_all add: pow2_def round_half_even_def Let_def)
  finally show ?thesis .
qed

lemma variance_step_4:
  "fsub (Num 0) (Num (5764607523034235 / 576460752303423488)) = Num (- (5764607523034235 / 576460752303423488))"
proof -
  have "fsub (Num 0) (Num (5764607523034235 / 576460752303423488)) = round64 (0 - (5764607523034235 / 576460752303423488))"
    by (rule fsub_Num)
  also have "\<dots> = Num (- (5764607523034235 / 576460752303423488))"
    by (rule round64_eval [where e = "- 7" and q = "- 59" and m = "- 5764607523034235", THEN trans])
       (simp_all add: pow2_def round_half_even_def Let_def)
  finally show ?thesis .
qed

lemma variance_step_5:
  "fsub (Num (5764607523034235 / 288230376151711744)) (Num (5764607523034235 / 576460752303423488)) = Num (5764607523034235 / 576460752303423488)"
proof -
  have "fsub (Num (5764607523034235 / 288230376151711744)) (Num (5764607523034235 / 576460752303423488)) = round64 ((5764607523034235 / 288230376151711744) - (5764607523034235 / 576460752303423488))"
    by (rule fsub_Num)
  also have "\<dots> = Num (5764607523034235 / 576460752303423488)"
    by (rule round64_eval [where e = "- 7" and q = "- 59" and m = "5764607523034235", THEN trans])
       (simp_all add: pow2_def round_half_even_def Let_def)
  finally show ?thesis .
qed

lemma variance_step_6:
  "fmul (Num (- (5764607523034235 / 576460752303423488))) (Num (- (5764607523034235 / 576460752303423488))) = Num (7378697629483821 / 73786976294838206464)"
proof -
  have "fmul (Num (- (5764607523034235 / 576460752303423488))) (Num (- (5764607523034235 / 576460752303423488))) = round64 ((- (5764607523034235 / 576460752303423488)) * (- (5764607523034235 / 576460752303423488)))"
    by (rule fmul_Num)
  also have "\<dots> = Num (7378697629483821 / 73786976294838206464)"
    by (rule round64_eval [where e = "- 14" and q = "- 66" and m = "7378697629483821", THEN trans])
       (simp_all add: pow2_def round_half_even_def Let_def)
  finally show ?thesis .
qed

lemma variance_step_7:
  "fmul (Num (5764607523034235 / 576460752303423488)) (Num (5764607523034235 / 576460752303423488)) = Num (7378697629483821 / 73786976294838206464)"
proof -
  have "fmul (Num (5764607523034235 / 576460752303423488)) (Num (5764607523034235 / 576460752303423488)) = round64 ((5764607523034235 / 576460752303423488) * (5764607523034235 / 576460752303423488))"
    by (rule fmul_Num)
  also have "\<dots> = Num (7378697629483821 / 73786976294838206464)"
    by (rule round64_eval [where e = "- 14" and q = "- 66" and m = "7378697629483821", THEN trans])
       (simp_all add: pow2_def round_half_even_def Let_def)
  finally show ?thesis .
qed

lemma variance_step_8:
  "fadd (Num 0) (Num (7378697629483821 / 73786976294838206464)) = Num (7378697629483821 / 73786976294838206464)"
proof -
  have "fadd (Num 0) (Num (7378697629483821 / 73786976294838206464)) = round64 (0 + (7378697629483821 / 73786976294838206464))"
    by (rule fadd_Num)
  also have "\<dots> = Num (7378697629483821 / 73786976294838206464)"
    by (rule round64_eval [where e = "- 14" and q = "- 66" and m = "7378697629483821", THEN trans])
       (simp_all add: pow2_def round_half_even_def Let_def)
  finally show ?thesis .
qed

lemma variance_step_9:
  "fadd (Num (7378697629483821 / 73786976294838206464)) (Num (7378697629483821 / 73786976294838206464)) = Num (7378697629483821 / 36893488147419103232)"
proof -
  have "fadd (Num (7378697629483821 / 73786976294838206464)) (Num (7378697629483821 / 73786976294838206464)) = round64 ((7378697629483821 / 73786976294838206464) + (7378697629483821 / 73786976294838206464))"
    by (rule fadd_Num)
  also have "\<dots> = Num (7378697629483821 / 36893488147419103232)"
    by (rule round64_eval [where e = "- 13" and q = "- 65" and m = "7378697629483821", THEN trans])
       (simp_all add: pow2_def round_half_even_def Let_def)
  finally show ?thesis .
qed

lemma variance_step_10:
  "fdiv (Num (7378697629483821 / 36893488147419103232)) (Num 2) = Num (7378697629483821 / 73786976294838206464)"
proof -
  have "fdiv (Num (7378697629483821 / 36893488147419103232)) (Num 2) = round64 ((7378697629483821 / 36893488147419103232) / 2)"
    by (rule fdiv_Num) simp
  also have "\<dots> = Num (7378697629483821 / 73786976294838206464)"
    by (rule round64_eval [where e = "- 14" and q = "- 66" and m = "7378697629483821", THEN trans])
       (simp_all add: pow2_def round_half_even_def Let_def)
  finally show ?thesis .
qed

lemma variance_step_11:
  "fadd (Num 0) (Num (5764607523034235 / 144115188075855872)) = Num (5764607523034235 / 144115188075855872)"
proof -
  have "fadd (Num 0) (Num (5764607523034235 / 144115188075855872)) = round64 (0 + (5764607523034235 / 144115188075855872))"
    by (rule fadd_Num)
  also have "\<dots> = Num (5764607523034235 / 144115188075855872)"
    by (rule round64_eval [where e = "- 5" and q = "- 57" and m = "5764607523034235", THEN trans])
       (simp_all add: pow2_def round_half_even_def Let_def)
  finally show ?thesis .
qed

lemma variance_step_12:
  "fdiv (Num (5764607523034235 / 144115188075855872)) (Num 2) = Num (5764607523034235 / 288230376151711744)"
proof -
  have "fdiv (Num (5764607523034235 / 144115188075855872)) (Num 2) = round64 ((5764607523034235 / 144115188075855872) / 2)"
    by (rule fdiv_Num) simp
  also have "\<dots> = Num (5764607523034235 / 288230376151711744)"
    by (rule round64_eval [where e = "- 6" and q = "- 58" and m = "5764607523034235", THEN trans])
       (simp_all add: pow2_def round_half_even_def Let_def)
  finally show ?thesis .
qed

lemma variance_step_13:
  "fsub (Num 0) (Num (5764607523034235 / 288230376151711744)) = Num (- (5764607523034235 / 288230376151711744))"
proof -
  have "fsub (Num 0) (Num (5764607523034235 / 288230376151711744)) = round64 (0 - (5764607523034235 / 288230376151711744))"
    by (rule fsub_Num)
  also have "\<dots> = Num (- (5764607523034235 / 288230376151711744))"
    by (rule round64_eval [where e = "- 6" and q = "- 58" and m = "- 5764607523034235", THEN trans])
       (simp_all add: pow2_def round_half_even_def Let_def)
  finally show ?thesis .
qed

lemma variance_step_14:
  "fsub (Num (5764607523034235 / 144115188075855872)) (Num (5764607523034235 / 288230376151711744)) = Num (5764607523034235 / 288230376151711744)"
proof -
  have "fsub (Num (5764607523034235 / 144115188075855872)) (Num (5764607523034235 / 288230376151711744)) = round64 ((5764607523034235 / 144115188075855872) - (5764607523034235 / 288230376151711744))"
    by (rule fsub_Num)
  also have "\<dots> = Num (5764607523034235 / 288230376151711744)"
    by (rule round64_eval [where e = "- 6" and q = "- 58" and m = "5764607523034235", THEN trans])
       (simp_all add: pow2_def round_half_even_def Let_def)
  finally show ?thesis .
qed

lemma variance_step_15:
  "fmul (Num (- (5764607523034235 / 288230376151711744))) (Num (- (5764607523034235 / 288230376151711744))) = Num (7378697629483821 / 18446744073709551616)"
proof -
  have "fmul (Num (- (5764607523034235 / 288230376151711744))) (Num (- (5764607523034235 / 288230376151711744))) = round64 ((- (5764607523034235 / 288230376151711744)) * (- (5764607523034235 / 288230376151711744)))"
    by (rule fmul_Num)
  also have "\<dots> = Num (7378697629483821 / 18446744073709551616)"
    by (rule round64_eval [where e = "- 12" and q = "- 64" and m = "7378697629483821", THEN trans])
       (simp_all add: pow2_def round_half_even_def Let_def)
  finally show ?thesis .
qed

lemma variance_step_16:
  "fmul (Num (5764607523034235 / 288230376151711744)) (Num (5764607523034235 / 288230376151711744)) = Num (7378697629483821 / 18446744073709551616)"
proof -
  have "fmul (Num (5764607523034235 / 288230376151711744)) (Num (5764607523034235 / 288230376151711744)) = round64 ((5764607523034235 / 288230376151711744) * (5764607523034235 / 288230376151711744))"
    by (rule fmul_Num)
  also have "\<dots> = Num (7378697629483821 / 18446744073709551616)"
    by (rule round64_eval [where e = "- 12" and q = "- 64" and m = "7378697629483821", THEN trans])
       (simp_all add: pow2_def round_half_even_def Let_def)
  finally show ?thesis .
qed

lemma variance_step_17:
  "fadd (Num 0) (Num (7378697629483821 / 18446744073709551616)) = Num (7378697629483821 / 18446744073709551616)"
proof -
  have "fadd (Num 0) (Num (7378697629483821 / 18446744073709551616)) = round64 (0 + (7378697629483821 / 18446744073709551616))"
    by (rule fadd_Num)
  also have "\<dots> = Num (7378697629483821 / 18446744073709551616)"
    by (rule round64_eval [where e = "- 12" and q = "- 64" and m = "7378697629483821", THEN trans])
       (simp_all add: pow2_def round_half_even_def Let_def)
  finally show ?thesis .
qed

lemma variance_step_18:
  "fadd (Num (7378697629483821 / 18446744073709551616)) (Num (7378697629483821 / 18446744073709551616)) = Num (7378697629483821 / 9223372036854775808)"
proof -
  have "fadd (Num (7378697629483821 / 18446744073709551616)) (Num (7378697629483821 / 18446744073709551616)) = round64 ((7378697629483821 / 18446744073709551616) + (7378697629483821 / 18446744073709551616))"
    by (rule fadd_Num)
  also have "\<dots> = Num (7378697629483821 / 9223372036854775808)"
    by (rule round64_eval [where e = "- 11" and q = "- 63" and m = "7378697629483821", THEN trans])
       (simp_all add: pow2_def round_half_even_def Let_def)
  finally show ?thesis .
qed

lemma variance_step_19:
  "fdiv (Num (7378697629483821 / 9223372036854775808)) (Num 2) = Num (7378697629483821 / 18446744073709551616)"
proof -
  have "fdiv (Num (7378697629483821 / 9223372036854775808)) (Num 2) = round64 ((7378697629483821 / 9223372036854775808) / 2)"
    by (rule fdiv_Num) simp
  also have "\<dots> = Num (7378697629483821 / 18446744073709551616)"
    by (rule round64_eval [where e = "- 12" and q = "- 64" and m = "7378697629483821", THEN trans])
       (simp_all add: pow2_def round_half_even_def Let_def)
  finally show ?thesis .
qed

lemma variance_sqrt_1:
  "fsqrt (Num (7378697629483821 / 73786976294838206464)) = Num (5764607523034235 / 576460752303423488)"
  by (rule fsqrt_eval [where e = "- 7" and q = "- 59" and m = "5764607523034235", THEN trans])
     (simp_all add: pow2_def power2_eq_square)

lemma variance_sqrt_2:
  "fsqrt (Num (7378697629483821 / 18446744073709551616)) = Num (5764607523034235 / 288230376151711744)"
  by (rule fsqrt_eval [where e = "- 6" and q = "- 58" and m = "5764607523034235", THEN trans])
     (simp_all add: pow2_def power2_eq_square)

lemma variance_example_0:
  "errorVariance (calculateStabilityMetrics []) = Num 0"
  by (simp add: calculateStabilityMetrics_def Let_def calculateStandardDeviation_def)

lemma variance_example_1:
  "errorVariance (calculateStabilityMetrics [sample_with_error 0, sample_with_error (dbl 0.02)])
     = Num (dbl 0.01)"
  by (simp add: error_value_def sample_with_error_def calculateStabilityMetrics_def Let_def
      js_or_def dbl_hundredth dbl_fiftieth calculateStandardDeviation_def calculateMean_def
      reduce_fsum_def js_square_def variance_step_1 variance_step_2 variance_step_3
      variance_step_4 variance_step_5 variance_step_6 variance_step_7 variance_step_8
      variance_step_9 variance_step_10 variance_sqrt_1)

lemma variance_example_2:
  "errorVariance (calculateStabilityMetrics [sample_with_error 0, sample_with_error (dbl 0.04)])
     = Num (dbl 0.02)"
  by (simp add: error_value_def sample_with_error_def calculateStabilityMetrics_def Let_def
      js_or_def dbl_fiftieth dbl_twentyfifth calculateStandardDeviation_def calculateMean_def
      reduce_fsum_def js_square_def variance_step_1 variance_step_11 variance_step_12
      variance_step_13 variance_step_14 variance_step_15 variance_step_16 variance_step_17
      variance_step_18 variance_step_19 variance_sqrt_2)

theorem overallStabilityScore_formula_witness:
  "errorVariance (calculateStabilityMetrics []) = Num 0 \<and>
   overallStabilityScore (calculateStabilityMetrics []) = Num 100 \<and>
   errorVariance (calculateStabilityMetrics [sample_with_error 0, sample_with_error (dbl 0.02)])
     = Num (dbl 0.01) \<and>
   overallStabilityScore
     (calculateStabilityMetrics [sample_with_error 0, sample_with_error (dbl 0.02)]) = Num 90 \<and>
   errorVariance (calculateStabilityMetrics [sample_with_error 0, sample_with_error (dbl 0.04)])
     = Num (dbl 0.02) \<and>
   overallStabilityScore
     (calculateStabilityMetrics [sample_with_error 0, sample_with_error (dbl 0.04)]) = Num 80"
proof -
  have "overallStabilityScore (calculateStabilityMetrics []) = Num 100"
    using overallStabilityScore_formula [of "[]"] variance_example_0 by blast
  moreover have "overallStabilityScore
      (calculateStabilityMetrics [sample_with_error 0, sample_with_error (dbl 0.02)]) = Num 90"
    using overallStabilityScore_formula [of "[sample_with_error 0, sample_with_error (dbl 0.02)]"]
      variance_example_1 by blast
  moreover have "overallStabilityScore
      (calculateStabilityMetrics [sample_with_error 0, sample_with_error (dbl 0.04)]) = Num 80"
    using overallStabilityScore_formula [of "[sample_with_error 0, sample_with_error (dbl 0.04)]"]
      variance_example_2 by blast
  ultimately show ?thesis
    using variance_example_0 variance_example_1 variance_example_2 by blast
qed

section \<open>Pearson correlation\<close>

lemma dbl_seven_hundredths: "dbl (7 / 100) = 1261007895663739 / 18014398509481984"
  unfolding dbl_def
  by (subst round64_eval [where e = "- 4" and q = "- 56" and m = "5044031582654956"])
     (simp_all add: pow2_def round_half_even_def Let_def)

lemma correlation_step_1:
  "fadd (Num 0) (Num 1) = Num 1"
proof -
  have "fadd (Num 0) (Num 1) = round64 (0 + 1)"
    by (rule fadd_Num)
  also have "\<dots> = Num 1"
    by (rule round64_eval [where e = "0" and q = "- 52" and m = "4503599627370496", THEN trans])
       (simp_all add: pow2_def round_half_even_def Let_def)
  finally show ?thesis .
qed

lemma correlation_step_2:
  "fadd (Num 1) (Num 2) = Num 3"
proof -
  have "fadd (Num 1) (Num 2) = round64 (1 + 2)"
    by (rule fadd_Num)
  also have "\<dots> = Num 3"
    by (rule round64_eval [where e = "1" and q = "- 51" and m = "6755399441055744", THEN trans])
       (simp_all add: pow2_def round_half_even_def Let_def)
  finally show ?thesis .
qed

lemma correlation_step_3:
  "fadd (Num 3) (Num 3) = Num 6"
proof -
  have "fadd (Num 3) (Num 3) = round64 (3 + 3)"
    by (rule fadd_Num)
  also have "\<dots> = Num 6"
    by (rule round64_eval [where e = "2" and q = "- 50" and m = "6755399441055744", THEN trans])
       (simp_all add: pow2_def round_half_even_def Let_def)
  finally show ?thesis .
qed

lemma correlation_step_4:
  "fadd (Num 0) (Num (1261007895663739 / 18014398509481984)) = Num (1261007895663739 / 18014398509481984)"
proof -
  have "fadd (Num 0) (Num (1261007895663739 / 18014398509481984)) = round64 (0 + (1261007895663739 / 18014398509481984))"
    by (rule fadd_Num)
  also have "\<dots> = Num (1261007895663739 / 18014398509481984)"
    by (rule round64_eval [where e = "- 4" and q = "- 56" and m = "5044031582654956", THEN trans])
       (simp_all add: pow2_def round_half_even_def Let_def)
  finally show ?thesis .
qed

lemma correlation_step_5:
  "fadd (Num (1261007895663739 / 18014398509481984)) (Num (1261007895663739 / 18014398509481984)) = Num (1261007895663739 / 9007199254740992)"
proof -
  have "fadd (Num (1261007895663739 / 18014398509481984)) (Num (1261007895663739 / 18014398509481984)) = round64 ((1261007895663739 / 18014398509481984) + (1261007895663739 / 18014398509481984))"
    by (rule fadd_Num)
  also have "\<dots> = Num (1261007895663739 / 9007199254740992)"
    by (rule round64_eval [where e = "- 3" and q = "- 55" and m = "5044031582654956", THEN trans])
       (simp_all add: pow2_def round_half_even_def Let_def)
  finally show ?thesis .
qed

lemma correlation_step_6:
  "fadd (Num (1261007895663739 / 9007199254740992)) (Num (1261007895663739 / 18014398509481984)) = Num (3783023686991217 / 18014398509481984)"
proof -
  have "fadd (Num (1261007895663739 / 9007199254740992)) (Num (1261007895663739 / 18014398509481984)) = round64 ((1261007895663739 / 9007199254740992) + (1261007895663739 / 18014398509481984))"
    by (rule fadd_Num)
  also have "\<dots> = Num (3783023686991217 / 18014398509481984)"
    by (rule round64_eval [where e = "- 3" and q = "- 55" and m = "7566047373982434", THEN trans])
       (simp_all add: pow2_def round_half_even_def Let_def)
  finally show ?thesis .
qed

lemma correlation_step_7:
  "fmul (Num 1) (Num (1261007895663739 / 18014398509481984)) = Num (1261007895663739 / 18014398509481984)"
proof -
  have "fmul (Num 1) (Num (1261007895663739 / 18014398509481984)) = round64 (1 * (1261007895663739 / 18014398509481984))"
    by (rule fmul_Num)
  also have "\<dots> = Num (1261007895663739 / 18014398509481984)"
    by (rule round64_eval [where e = "- 4" and q = "- 56" and m = "5044031582654956", THEN trans])
       (simp_all add: pow2_def round_half_even_def Let_def)
  finally show ?thesis .
qed

lemma correlation_step_8:
  "fmul (Num 2) (Num (1261007895663739 / 18014398509481984)) = Num (1261007895663739 / 9007199254740992)"
proof -
  have "fmul (Num 2) (Num (1261007895663739 / 18014398509481984)) = round64 (2 * (1261007895663739 / 18014398509481984))"
    by (rule fmul_Num)
  also have "\<dots> = Num (1261007895663739 / 9007199254740992)"
    by (rule round64_eval [where e = "- 3" and q = "- 55" and m = "5044031582654956", THEN trans])
       (simp_all add: pow2_def round_half_even_def Let_def)
  finally show ?thesis .
qed

lemma correlation_step_9:
  "fadd (Num (1261007895663739 / 18014398509481984)) (Num (1261007895663739 / 9007199254740992)) = Num (3783023686991217 / 18014398509481984)"
proof -
  have "fadd (Num (1261007895663739 / 18014398509481984)) (Num (1261007895663739 / 9007199254740992)) = round64 ((1261007895663739 / 18014398509481984) + (1261007895663739 / 9007199254740992))"
    by (rule fadd_Num)
  also have "\<dots> = Num (3783023686991217 / 18014398509481984)"
    by (rule round64_eval [where e = "- 3" and q = "- 55" and m = "7566047373982434", THEN trans])
       (simp_all add: pow2_def round_half_even_def Let_def)
  finally show ?thesis .
qed

lemma correlation_step_10:
  "fmul (Num 3) (Num (1261007895663739 / 18014398509481984)) = Num (3783023686991217 / 18014398509481984)"
proof -
  have "fmul (Num 3) (Num (1261007895663739 / 18014398509481984)) = round64 (3 * (1261007895663739 / 18014398509481984))"
    by (rule fmul_Num)
  also have "\<dots> = Num (3783023686991217 / 18014398509481984)"
    by (rule round64_eval [where e = "- 3" and q = "- 55" and m = "7566047373982434", THEN trans])
       (simp_all add: pow2_def round_half_even_def Let_def)
  finally show ?thesis .
qed

lemma correlation_step_11:
  "fadd (Num (3783023686991217 / 18014398509481984)) (Num (3783023686991217 / 18014398509481984)) = Num (3783023686991217 / 9007199254740992)"
proof -
  have "fadd (Num (3783023686991217 / 18014398509481984)) (Num (3783023686991217 / 18014398509481984)) = round64 ((3783023686991217 / 18014398509481984) + (3783023686991217 / 18014398509481984))"
    by (rule fadd_Num)
  also have "\<dots> = Num (3783023686991217 / 9007199254740992)"
    by (rule round64_eval [where e = "- 2" and q = "- 54" and m = "7566047373982434", THEN trans])
       (simp_all add: pow2_def round_half_even_def Let_def)
  finally show ?thesis .
qed

lemma correlation_step_12:
  "fmul (Num 1) (Num 1) = Num 1"
proof -
  have "fmul (Num 1) (Num 1) = round64 (1 * 1)"
    by (rule fmul_Num)
  also have "\<dots> = Num 1"
    by (rule round64_eval [where e = "0" and q = "- 52" and m = "4503599627370496", THEN trans])
       (simp_all add: pow2_def round_half_even_def Let_def)
  finally show ?thesis .
qed

lemma correlation_step_13:
  "fmul (Num 2) (Num 2) = Num 4"
proof -
  have "fmul (Num 2) (Num 2) = round64 (2 * 2)"
    by (rule fmul_Num)
  also have "\<dots> = Num 4"
    by (rule round64_eval [where e = "2" and q = "- 50" and m = "4503599627370496", THEN trans])
       (simp_all add: pow2_def round_half_even_def Let_def)
  finally show ?thesis .
qed

lemma correlation_step_14:
  "fadd (Num 1) (Num 4) = Num 5"
proof -
  have "fadd (Num 1) (Num 4) = round64 (1 + 4)"
    by (rule fadd_Num)
  also have "\<dots> = Num 5"
    by (rule round64_eval [where e = "2" and q = "- 50" and m = "5629499534213120", THEN trans])
       (simp_all add: pow2_def round_half_even_def Let_def)
  finally show ?thesis .
qed

lemma correlation_step_15:
  "fmul (Num 3) (Num 3) = Num 9"
proof -
  have "fmul (Num 3) (Num 3) = round64 (3 * 3)"
    by (rule fmul_Num)
  also have "\<dots> = Num 9"
    by (rule round64_eval [where e = "3" and q = "- 49" and m = "5066549580791808", THEN trans])
       (simp_all add: pow2_def round_half_even_def Let_def)
  finally show ?thesis .
qed

lemma correlation_step_16:
  "fadd (Num 5) (Num 9) = Num 14"
proof -
  have "fadd (Num 5) (Num 9) = round64 (5 + 9)"
    by (rule fadd_Num)
  also have "\<dots> = Num 14"
    by (rule round64_eval [where e = "3" and q = "- 49" and m = "7881299347898368", THEN trans])
       (simp_all add: pow2_def round_half_even_def Let_def)
  finally show ?thesis .
qed

lemma correlation_step_17:
  "fmul (Num (1261007895663739 / 18014398509481984)) (Num (1261007895663739 / 18014398509481984)) = Num (5649315372573551 / 1152921504606846976)"
proof -
  have "fmul (Num (1261007895663739 / 18014398509481984)) (Num (1261007895663739 / 18014398509481984)) = round64 ((1261007895663739 / 18014398509481984) * (1261007895663739 / 18014398509481984))"
    by (rule fmul_Num)
  also have "\<dots> = Num (5649315372573551 / 1152921504606846976)"
    by (rule round64_eval [where e = "- 8" and q = "- 60" and m = "5649315372573551", THEN trans])
       (simp_all add: pow2_def round_half_even_def Let_def)
  finally show ?thesis .
qed

lemma correlation_step_18:
  "fadd (Num 0) (Num (5649315372573551 / 1152921504606846976)) = Num (5649315372573551 / 1152921504606846976)"
proof -
  have "fadd (Num 0) (Num (5649315372573551 / 1152921504606846976)) = round64 (0 + (5649315372573551 / 1152921504606846976))"
    by (rule fadd_Num)
  also have "\<dots> = Num (5649315372573551 / 1152921504606846976)"
    by (rule round64_eval [where e = "- 8" and q = "- 60" and m = "5649315372573551", THEN trans])
       (simp_all add: pow2_def round_half_even_def Let_def)
  finally show ?thesis .
qed

lemma correlation_step_19:
  "fadd (Num (5649315372573551 / 1152921504606846976)) (Num (5649315372573551 / 1152921504606846976)) = Num (5649315372573551 / 576460752303423488)"
proof -
  have "fadd (Num (5649315372573551 / 1152921504606846976)) (Num (5649315372573551 / 1152921504606846976)) = round64 ((5649315372573551 / 1152921504606846976) + (5649315372573551 / 1152921504606846976))"
    by (rule fadd_Num)
  also have "\<dots> = Num (5649315372573551 / 576460752303423488)"
    by (rule round64_eval [where e = "- 7" and q = "- 59" and m = "5649315372573551", THEN trans])
       (simp_all add: pow2_def round_half_even_def Let_def)
  finally show ?thesis .
qed

lemma correlation_step_20:
  "fadd (Num (5649315372573551 / 576460752303423488)) (Num (5649315372573551 / 1152921504606846976)) = Num (4236986529430163 / 288230376151711744)"
proof -
  have "fadd (Num (5649315372573551 / 576460752303423488)) (Num (5649315372573551 / 1152921504606846976)) = round64 ((5649315372573551 / 576460752303423488) + (5649315372573551 / 1152921504606846976))"
    by (rule fadd_Num)
  also have "\<dots> = Num (4236986529430163 / 288230376151711744)"
    by (rule round64_eval [where e = "- 7" and q = "- 59" and m = "8473973058860326", THEN trans])
       (simp_all add: pow2_def round_half_even_def Let_def)
  finally show ?thesis .
qed

lemma correlation_step_21:
  "fmul (Num 3) (Num (3783023686991217 / 9007199254740992)) = Num (2837267765243413 / 2251799813685248)"
proof -
  have "fmul (Num 3) (Num (3783023686991217 / 9007199254740992)) = round64 (3 * (3783023686991217 / 9007199254740992))"
    by (rule fmul_Num)
  also have "\<dots> = Num (2837267765243413 / 2251799813685248)"
    by (rule round64_eval [where e = "0" and q = "- 52" and m = "5674535530486826", THEN trans])
       (simp_all add: pow2_def round_half_even_def Let_def)
  finally show ?thesis .
qed

lemma correlation_step_22:
  "fmul (Num 6) (Num (3783023686991217 / 18014398509481984)) = Num (2837267765243413 / 2251799813685248)"
proof -
  have "fmul (Num 6) (Num (3783023686991217 / 18014398509481984)) = round64 (6 * (3783023686991217 / 18014398509481984))"
    by (rule fmul_Num)
  also have "\<dots> = Num (2837267765243413 / 2251799813685248)"
    by (rule round64_eval [where e = "0" and q = "- 52" and m = "5674535530486826", THEN trans])
       (simp_all add: pow2_def round_half_even_def Let_def)
  finally show ?thesis .
qed

lemma correlation_step_23:
  "fsub (Num (2837267765243413 / 2251799813685248)) (Num (2837267765243413 / 2251799813685248)) = Num 0"
  by (simp add: fsub_Num)

lemma correlation_step_24:
  "fmul (Num 3) (Num 14) = Num 42"
proof -
  have "fmul (Num 3) (Num 14) = round64 (3 * 14)"
    by (rule fmul_Num)
  also have "\<dots> = Num 42"
    by (rule round64_eval [where e = "5" and q = "- 47" and m = "5910974510923776", THEN trans])
       (simp_all add: pow2_def round_half_even_def Let_def)
  finally show ?thesis .
qed

lemma correlation_step_25:
  "fmul (Num 6) (Num 6) = Num 36"
proof -
  have "fmul (Num 6) (Num 6) = round64 (6 * 6)"
    by (rule fmul_Num)
  also have "\<dots> = Num 36"
    by (rule round64_eval [where e = "5" and q = "- 47" and m = "5066549580791808", THEN trans])
       (simp_all add: pow2_def round_half_even_def Let_def)
  finally show ?thesis .
qed

lemma correlation_step_26:
  "fsub (Num 42) (Num 36) = Num 6"
proof -
  have "fsub (Num 42) (Num 36) = round64 (42 - 36)"
    by (rule fsub_Num)
  also have "\<dots> = Num 6"
    by (rule round64_eval [where e = "2" and q = "- 50" and m = "6755399441055744", THEN trans])
       (simp_all add: pow2_def round_half_even_def Let_def)
  finally show ?thesis .
qed

lemma correlation_step_27:
  "fmul (Num 3) (Num (4236986529430163 / 288230376151711744)) = Num (1588869948536311 / 36028797018963968)"
proof -
  have "fmul (Num 3) (Num (4236986529430163 / 288230376151711744)) = round64 (3 * (4236986529430163 / 288230376151711744))"
    by (rule fmul_Num)
  also have "\<dots> = Num (1588869948536311 / 36028797018963968)"
    by (rule round64_eval [where e = "- 5" and q = "- 57" and m = "6355479794145244", THEN trans])
       (simp_all add: pow2_def round_half_even_def Let_def)
  finally show ?thesis .
qed

lemma correlation_step_28:
  "fmul (Num (3783023686991217 / 18014398509481984)) (Num (3783023686991217 / 18014398509481984)) = Num (6355479794145245 / 144115188075855872)"
proof -
  have "fmul (Num (3783023686991217 / 18014398509481984)) (Num (3783023686991217 / 18014398509481984)) = round64 ((3783023686991217 / 18014398509481984) * (3783023686991217 / 18014398509481984))"
    by (rule fmul_Num)
  also have "\<dots> = Num (6355479794145245 / 144115188075855872)"
    by (rule round64_eval [where e = "- 5" and q = "- 57" and m = "6355479794145245", THEN trans])
       (simp_all add: pow2_def round_half_even_def Let_def)
  finally show ?thesis .
qed

lemma correlation_step_29:
  "fsub (Num (1588869948536311 / 36028797018963968)) (Num (6355479794145245 / 144115188075855872)) = Num (- (1 / 144115188075855872))"
proof -
  have "fsub (Num (1588869948536311 / 36028797018963968)) (Num (6355479794145245 / 144115188075855872)) = round64 ((1588869948536311 / 36028797018963968) - (6355479794145245 / 144115188075855872))"
    by (rule fsub_Num)
  also have "\<dots> = Num (- (1 / 144115188075855872))"
    by (rule round64_eval [where e = "- 57" and q = "- 109" and m = "- 4503599627370496", THEN trans])
       (simp_all add: pow2_def round_half_even_def Let_def)
  finally show ?thesis .
qed

lemma correlation_step_30:
  "fmul (Num 6) (Num (- (1 / 144115188075855872))) = Num (- (3 / 72057594037927936))"
proof -
  have "fmul (Num 6) (Num (- (1 / 144115188075855872))) = round64 (6 * (- (1 / 144115188075855872)))"
    by (rule fmul_Num)
  also have "\<dots> = Num (- (3 / 72057594037927936))"
    by (rule round64_eval [where e = "- 55" and q = "- 107" and m = "- 6755399441055744", THEN trans])
       (simp_all add: pow2_def round_half_even_def Let_def)
  finally show ?thesis .
qed

lemma correlation_radicand_sqrt:
  "fsqrt (Num (- (3 / 72057594037927936))) = NaN"
  by (simp add: fsqrt_def)

lemma calculateCorrelation_guard:
  "length xs \<noteq> length ys \<or> xs = [] \<Longrightarrow> calculateCorrelation xs ys = Num 0"
  by (auto simp add: calculateCorrelation_def)

text \<open>
  C9.  The claim says that the correlation of any sequence with a constant sequence of
  equal length is 0.  For \<open>x = [1, 2, 3]\<close> and \<open>y = [0.07, 0.07, 0.07]\<close> the source
  computes \<open>sumY = 0.21000000000000002\<close> and \<open>sumYY = 0.014700000000000001\<close>, so
  \<open>n * sumYY - sumY * sumY\<close> is \<open>- 1 / 2 ^ 57\<close> (about \<open>- 6.9e-18\<close>) instead of 0; the
  radicand \<open>6 * (- 1 / 2 ^ 57)\<close> is negative, \<open>Math.sqrt\<close> returns NaN, the guard
  \<open>denominator === 0\<close> does not fire and the function returns \<open>0 / NaN\<close>, which is NaN.
\<close>

theorem calculateCorrelation_constant_NaN:
  "calculateCorrelation [1, 2, 3] [dbl 0.07, dbl 0.07, dbl 0.07] = NaN"
  by (simp add: calculateCorrelation_def Let_def reduce_fsum_def dbl_seven_hundredths
      correlation_radicand_sqrt
      correlation_step_1 correlation_step_2 correlation_step_3 correlation_step_4
      correlation_step_5 correlation_step_6 correlation_step_7 correlation_step_8
      correlation_step_9 correlation_step_10 correlation_step_11 correlation_step_12
      correlation_step_13 correlation_step_14 correlation_step_15 correlation_step_16
      correlation_step_17 correlation_step_18 correlation_step_19 correlation_step_20
      correlation_step_21 correlation_step_22 correlation_step_23 correlation_step_24
      correlation_step_25 correlation_step_26 correlation_step_27 correlation_step_28
      correlation_step_29 correlation_step_30)

section \<open>Trend direction\<close>







































end
